theory Spec2Isabelle
  imports Complex_Main "HOL-Library.AList"
begin

section \<open>The weekly grocery optimizer of \<^verbatim>\<open>app.py\<close>\<close>

text \<open>
  A shallow embedding of the optimisation request of \<^verbatim>\<open>app.py\<close> (the body of the
  ``Generate Shopping List'' tab, lines 255 to 465): the requirement loop, the two
  \<^verbatim>\<open>pd.merge\<close> calls, the PuLP model that is built, the call of the solver and the
  loop that collects the results.

  Conventions of the embedding.
  \<^item> A DataFrame is the list of its rows, a row a record with one field per column.
    The columns are the ones the code reads; their names are the source's, with
    \<^verbatim>\<open>_\<close> for a blank and a prefix where two tables share a column name.
  \<^item> Numbers of the sheets and of the solver are \<^typ>\<open>real\<close>: every float is a real
    number, and rounding errors of float arithmetic are not modelled. The cost and the
    weight stored in a row of the plan are the exception: they are rounded to two
    decimals, where an error of the float arithmetic changes the result, so the two
    float operations that compute them are parameters of the model.
  \<^item> A Python exception is a value of \<^verbatim>\<open>exn\<close>; a computation that may raise
    returns \<^verbatim>\<open>exn + 'a\<close>.
  \<^item> The MILP solver is not part of the program: it is a parameter of the model,
    a function from the problem to a status and a value for each variable.
\<close>

subsection \<open>Exceptions\<close>

datatype exn =
    TypeError
  | KeyError string
  | IndexError
  | PulpSolverError

subsection \<open>Tables of the session state\<close>

datatype gender = Male | Female

fun gender_str :: "gender \<Rightarrow> string" where
  "gender_str Male = ''male''"
| "gender_str Female = ''female''"

text \<open>
  A household member is appended by tab 1 with the age of
  \<^verbatim>\<open>st.number_input("Age", min_value=1, max_value=120)\<close> and the gender of
  \<^verbatim>\<open>st.selectbox("Gender", ["male", "female"])\<close>.
\<close>

record member =
  age :: int
  gender :: gender

text \<open>Sheet \<^verbatim>\<open>Check_Nutrition\<close>.\<close>

record check_row =
  Age_Sex_Group :: string
  Min_Age :: int
  Max_Age :: int
  Min_Calorie :: real
  min_Protein :: real
  min_Carbohydrate :: real
  min_Fat :: real

text \<open>Sheet \<^verbatim>\<open>Cost_List\<close>.\<close>

record cost_row =
  c_Food :: string
  c_Package_Description :: string
  c_Store :: string
  c_price :: real
  c_lb :: real

text \<open>Sheet \<^verbatim>\<open>Nutrition_List\<close>.\<close>

record nutrition_row =
  n_Food :: string
  n_kcal :: real
  n_Protein_g :: real
  n_Carbs_g :: real
  n_Fat_g :: real
  n_Food_Basket :: string
  n_Max_quantity :: real

text \<open>The stock sheet.\<close>

record stock_row =
  s_Package_Description :: string
  s_Quantity_in_Stock_lb :: real

text \<open>A row of \<^verbatim>\<open>data\<close>, the merged table.\<close>

record data_row =
  Food :: string
  Package_Description :: string
  Store :: string
  price :: real
  lb :: real
  kcal :: real
  Protein_g :: real
  Carbs_g :: real
  Fat_g :: real
  Food_Basket :: string
  Max_quantity :: real
  Quantity_in_Stock_lb :: real

record session_state =
  household_members :: "member list"
  cost_df :: "cost_row list option"
  nutrition_df :: "nutrition_row list option"
  check_df :: "check_row list option"
  stock_df :: "stock_row list option"

subsection \<open>Strings\<close>

text \<open>
  \<^verbatim>\<open>str.lower\<close> on the ASCII letters; every other byte is left as it is.
\<close>

definition lower_char :: "char \<Rightarrow> char" where
  "lower_char c =
     (case map_of (zip ''ABCDEFGHIJKLMNOPQRSTUVWXYZ'' ''abcdefghijklmnopqrstuvwxyz'') c of
        None \<Rightarrow> c
      | Some l \<Rightarrow> l)"

definition lower :: "string \<Rightarrow> string" where
  "lower s = map lower_char s"

text \<open>\<^verbatim>\<open>s.replace(a, b)\<close> for a one-character \<^verbatim>\<open>a\<close>.\<close>

definition replace :: "char \<Rightarrow> string \<Rightarrow> string \<Rightarrow> string" where
  "replace a b s = concat (map (\<lambda>c. if c = a then b else [c]) s)"

subsection \<open>Requirement loop (lines 268 to 286)\<close>

text \<open>The dictionary \<^verbatim>\<open>required_nutrients\<close>, one field per key.\<close>

record required =
  req_Min_Calorie :: real
  req_Min_Protein :: real
  req_Min_Carbohydrate :: real
  req_Min_Fat :: real

definition required_init :: required where
  "required_init =
     \<lparr>req_Min_Calorie = 0, req_Min_Protein = 0, req_Min_Carbohydrate = 0, req_Min_Fat = 0\<rparr>"

text \<open>
  The boolean mask of line 276: the group of the row is lowered, the gender of the member
  is taken as it is.
\<close>

definition row_mask :: "member \<Rightarrow> check_row \<Rightarrow> bool" where
  "row_mask m r \<longleftrightarrow>
     lower (Age_Sex_Group r) = gender_str (gender m) \<and> Min_Age r \<le> age m \<and> Max_Age r \<ge> age m"

text \<open>One turn of the loop: \<^verbatim>\<open>.values[0]\<close> reads the first row of the selection.\<close>

definition add_member :: "check_row list \<Rightarrow> required \<Rightarrow> member \<Rightarrow> required" where
  "add_member check req m =
     (case filter (row_mask m) check of
        [] \<Rightarrow> req
      | r # _ \<Rightarrow>
          \<lparr>req_Min_Calorie = req_Min_Calorie req + Min_Calorie r,
           req_Min_Protein = req_Min_Protein req + min_Protein r,
           req_Min_Carbohydrate = req_Min_Carbohydrate req + min_Carbohydrate r,
           req_Min_Fat = req_Min_Fat req + min_Fat r\<rparr>)"

text \<open>
  Subscripting \<^verbatim>\<open>check_df\<close> when it is \<^verbatim>\<open>None\<close> raises a TypeError, in the first turn
  of the loop.
\<close>

definition required_nutrients :: "check_row list option \<Rightarrow> member list \<Rightarrow> exn + required" where
  "required_nutrients check members =
     (case check of
        None \<Rightarrow> (if members = [] then Inr required_init else Inl TypeError)
      | Some t \<Rightarrow> Inr (foldl (add_member t) required_init members))"

subsection \<open>The two merges (lines 289 to 291)\<close>

text \<open>
  \<^verbatim>\<open>pd.merge(cost_df, nutrition_df, on="Food")\<close> is an inner join: a cost row is paired
  with every nutrition row of the same food, in the order of the cost rows, and a cost
  row with no nutrition row is dropped. Nothing checks that a key is unique.
\<close>

definition merge_food :: "cost_row list \<Rightarrow> nutrition_row list \<Rightarrow> (cost_row \<times> nutrition_row) list" where
  "merge_food cost nutrition =
     concat (map (\<lambda>c. map (\<lambda>n. (c, n)) (filter (\<lambda>n. n_Food n = c_Food c) nutrition)) cost)"

definition joined_row :: "cost_row \<Rightarrow> nutrition_row \<Rightarrow> real \<Rightarrow> data_row" where
  "joined_row c n q =
     \<lparr>Food = c_Food c, Package_Description = c_Package_Description c, Store = c_Store c,
      price = c_price c, lb = c_lb c, kcal = n_kcal n, Protein_g = n_Protein_g n,
      Carbs_g = n_Carbs_g n, Fat_g = n_Fat_g n, Food_Basket = n_Food_Basket n,
      Max_quantity = n_Max_quantity n, Quantity_in_Stock_lb = q\<rparr>"

text \<open>
  \<^verbatim>\<open>pd.merge(data, stock_df, on="Package Description", how="left").fillna(0)\<close>: a row
  is paired with every stock row of its description; a row with none is kept, and its
  missing stock is filled with 0.
\<close>

definition merge_stock :: "(cost_row \<times> nutrition_row) list \<Rightarrow> stock_row list \<Rightarrow> data_row list" where
  "merge_stock rows stock =
     concat (map (\<lambda>(c, n).
       (case filter (\<lambda>s. s_Package_Description s = c_Package_Description c) stock of
          [] \<Rightarrow> [joined_row c n 0]
        | s # ss \<Rightarrow> map (\<lambda>s. joined_row c n (s_Quantity_in_Stock_lb s)) (s # ss))) rows)"

text \<open>\<^verbatim>\<open>pd.merge\<close> raises a TypeError when one of its tables is \<^verbatim>\<open>None\<close>.\<close>

definition merge_data ::
  "cost_row list option \<Rightarrow> nutrition_row list option \<Rightarrow> stock_row list option \<Rightarrow> exn + data_row list" where
  "merge_data cost nutrition stock =
     (case cost of
        None \<Rightarrow> Inl TypeError
      | Some c \<Rightarrow>
          (case nutrition of
             None \<Rightarrow> Inl TypeError
           | Some n \<Rightarrow>
               (case stock of
                  None \<Rightarrow> Inl TypeError
                | Some s \<Rightarrow> Inr (merge_stock (merge_food c n) s))))"

subsection \<open>The PuLP problem (lines 294 to 354)\<close>

text \<open>
  A variable of the problem is named by the dictionary that holds it and its key there:
  \<^verbatim>\<open>buy_qty[d]\<close> is \<open>Buy d\<close> and \<^verbatim>\<open>has_cat[c]\<close> is \<open>Has c\<close>.
\<close>

datatype var_ref = Buy string | Has string

datatype category = Continuous | Integer | Binary

text \<open>The arguments of a call of \<^verbatim>\<open>LpVariable\<close>; a bound that is not given is \<open>None\<close>.\<close>

record lp_variable =
  v_name :: string
  lowBound :: "real option"
  upBound :: "real option"
  cat :: category

text \<open>An affine expression: the terms in the order they are summed, and a constant.\<close>

record affine =
  terms :: "(real \<times> var_ref) list"
  constant_term :: real

datatype sense = GE | LE | EQ

record lp_constraint =
  lhs :: affine
  sense :: sense
  rhs :: affine
  c_name :: "string option"

datatype direction = LpMinimize | LpMaximize

record lp_problem =
  p_name :: string
  p_sense :: direction
  objective :: affine
  constraints :: "lp_constraint list"

text \<open>What the builder leaves behind: the problem and the two dictionaries of variables.\<close>

record built =
  model :: lp_problem
  buy_qty :: "(string \<times> lp_variable) list"
  has_cat :: "(string \<times> lp_variable) list"

definition var_name :: "string \<Rightarrow> string" where
  "var_name d =
     replace CHR '')'' [] (replace CHR ''('' [] (replace CHR '','' [] (replace CHR '' '' ''_'' d)))"

definition buy_var :: "data_row \<Rightarrow> lp_variable" where
  "buy_var row =
     \<lparr>v_name = var_name (Package_Description row), lowBound = Some 0,
      upBound = Some (Max_quantity row), cat = Integer\<rparr>"

text \<open>
  The dictionary comprehension of line 297: a key that comes again keeps its place and
  takes the new variable.
\<close>

definition mk_buy_qty :: "data_row list \<Rightarrow> (string \<times> lp_variable) list" where
  "mk_buy_qty data =
     foldl (\<lambda>d row. AList.update (Package_Description row) (buy_var row) d) [] data"

definition cost_objective :: "data_row list \<Rightarrow> affine" where
  "cost_objective data =
     \<lparr>terms = map (\<lambda>row. (price row, Buy (Package_Description row))) data, constant_term = 0\<rparr>"

text \<open>The pairs the nutrient loop runs over, in its order.\<close>

datatype nutrient = Protein | Carbohydrate | Fat | Calorie

definition nutrient_loop :: "nutrient list" where
  "nutrient_loop = [Protein, Carbohydrate, Fat, Calorie]"

fun nutrient_key :: "nutrient \<Rightarrow> string" where
  "nutrient_key Protein = ''Min_Protein''"
| "nutrient_key Carbohydrate = ''Min_Carbohydrate''"
| "nutrient_key Fat = ''Min_Fat''"
| "nutrient_key Calorie = ''Min_Calorie''"

fun required_of :: "required \<Rightarrow> nutrient \<Rightarrow> real" where
  "required_of req Protein = req_Min_Protein req"
| "required_of req Carbohydrate = req_Min_Carbohydrate req"
| "required_of req Fat = req_Min_Fat req"
| "required_of req Calorie = req_Min_Calorie req"

fun column_of :: "nutrient \<Rightarrow> data_row \<Rightarrow> real" where
  "column_of Protein row = Protein_g row"
| "column_of Carbohydrate row = Carbs_g row"
| "column_of Fat row = Fat_g row"
| "column_of Calorie row = kcal row"

definition nutrient_constraint :: "data_row list \<Rightarrow> required \<Rightarrow> nutrient \<Rightarrow> lp_constraint" where
  "nutrient_constraint data req n =
     \<lparr>lhs = \<lparr>terms = map (\<lambda>row. (column_of n row, Buy (Package_Description row))) data,
             constant_term = sum_list (map (\<lambda>row. column_of n row * Quantity_in_Stock_lb row) data)\<rparr>,
      sense = GE,
      rhs = \<lparr>terms = [], constant_term = required_of req n * 7\<rparr>,
      c_name = Some (nutrient_key n @ ''_requirement'')\<rparr>"

definition nutrient_constraints :: "data_row list \<Rightarrow> required \<Rightarrow> lp_constraint list" where
  "nutrient_constraints data req = map (nutrient_constraint data req) nutrient_loop"

definition basket_categories :: "string list" where
  "basket_categories =
     [''Protein'', ''Grains & Carbohydrate Sources'', ''Vegetables'', ''Fruits'',
      ''Fats, Nuts & Seeds'']"

definition has_var :: "string \<Rightarrow> lp_variable" where
  "has_var c =
     \<lparr>v_name = ''Has_'' @ replace CHR ''&'' ''and'' (replace CHR '','' [] (replace CHR '' '' ''_'' c)),
      lowBound = None, upBound = None, cat = Binary\<rparr>"

definition mk_has_cat :: "(string \<times> lp_variable) list" where
  "mk_has_cat = map (\<lambda>c. (c, has_var c)) basket_categories"

text \<open>The two constraints the diversity loop adds for a category with items.\<close>

definition presence_constraint :: "string \<Rightarrow> data_row list \<Rightarrow> lp_constraint" where
  "presence_constraint c cat_items =
     \<lparr>lhs = \<lparr>terms = map (\<lambda>row. (1, Buy (Package_Description row))) cat_items,
             constant_term = real (length (filter (\<lambda>row. Quantity_in_Stock_lb row > 0) cat_items))\<rparr>,
      sense = GE,
      rhs = \<lparr>terms = [(1, Has c)], constant_term = 0\<rparr>,
      c_name = Some (c @ ''_presence'')\<rparr>"

definition at_most_one_constraint :: "string \<Rightarrow> lp_constraint" where
  "at_most_one_constraint c =
     \<lparr>lhs = \<lparr>terms = [(1, Has c)], constant_term = 0\<rparr>,
      sense = LE,
      rhs = \<lparr>terms = [], constant_term = 1\<rparr>,
      c_name = None\<rparr>"

text \<open>\<^verbatim>\<open>data[data["Food Basket"] == cat]\<close>.\<close>

definition category_items :: "data_row list \<Rightarrow> string \<Rightarrow> data_row list" where
  "category_items data c = filter (\<lambda>row. Food_Basket row = c) data"

definition category_constraints :: "data_row list \<Rightarrow> string \<Rightarrow> lp_constraint list" where
  "category_constraints data c =
     (let cat_items = category_items data c in
      if length cat_items > 0
      then [presence_constraint c cat_items, at_most_one_constraint c]
      else [])"

definition diversity_constraints :: "data_row list \<Rightarrow> lp_constraint list" where
  "diversity_constraints data = concat (map (category_constraints data) basket_categories)"

definition build_model :: "data_row list \<Rightarrow> required \<Rightarrow> built" where
  "build_model data req =
     \<lparr>model =
        \<lparr>p_name = ''Weekly_Shopping_Optimization'', p_sense = LpMinimize,
         objective = cost_objective data,
         constraints = nutrient_constraints data req @ diversity_constraints data\<rparr>,
      buy_qty = mk_buy_qty data,
      has_cat = mk_has_cat\<rparr>"

subsection \<open>The solver (line 357)\<close>

datatype status = NotSolved | Optimal | Infeasible | Unbounded | Undefined

fun LpStatus :: "status \<Rightarrow> string" where
  "LpStatus NotSolved = ''Not Solved''"
| "LpStatus Optimal = ''Optimal''"
| "LpStatus Infeasible = ''Infeasible''"
| "LpStatus Unbounded = ''Unbounded''"
| "LpStatus Undefined = ''Undefined''"

text \<open>
  What \<^verbatim>\<open>.value()\<close> gives for each variable after the solve: \<open>None\<close> for a variable
  with no value.
\<close>

type_synonym valuation = "var_ref \<Rightarrow> real option"

text \<open>
  \<^verbatim>\<open>model.solve()\<close>: it raises, or it gives a status and leaves a value in the variables.
\<close>

type_synonym solver = "built \<Rightarrow> exn + (status \<times> valuation)"

subsection \<open>Collecting the results (lines 362 to 386)\<close>

record result_row =
  r_Store :: string
  r_Food :: string
  r_Package_Description :: string
  lb_per_package :: real
  price_per_package :: real
  Qty_to_Buy :: int
  Total_Weight_lb :: real
  Weekly_Cost :: real

text \<open>\<^verbatim>\<open>round(x)\<close>: the nearest integer, a tie going to the even one.\<close>

definition py_round :: "real \<Rightarrow> int" where
  "py_round x =
     (let f = \<lfloor>x\<rfloor>; d = x - of_int f in
      if d < 1 / 2 then f else if 1 / 2 < d then f + 1 else if even f then f else f + 1)"

text \<open>
  The two float operations behind the stored cost and weight of a row: the product
  \<^verbatim>\<open>x * qty\<close> of two floats and \<^verbatim>\<open>round(x, 2)\<close> of a float, which numpy computes
  in double arithmetic. Their results are not those of the exact operations on the
  reals, and the model takes them as they are given.
\<close>

record float_ops =
  f_mul :: "real \<Rightarrow> real \<Rightarrow> real"
  f_round2 :: "real \<Rightarrow> real"

text \<open>The dictionary appended to \<^verbatim>\<open>results\<close> (lines 369 to 380).\<close>

definition result_row_of :: "float_ops \<Rightarrow> data_row \<Rightarrow> string \<Rightarrow> int \<Rightarrow> result_row" where
  "result_row_of ops row_data food qty =
     \<lparr>r_Store = Store row_data, r_Food = Food row_data, r_Package_Description = food,
      lb_per_package = lb row_data, price_per_package = price row_data, Qty_to_Buy = qty,
      Total_Weight_lb = f_round2 ops (f_mul ops (lb row_data) (of_int qty)),
      Weekly_Cost = f_round2 ops (f_mul ops (price row_data) (of_int qty))\<rparr>"

text \<open>
  The body of the loop for one key: \<^verbatim>\<open>if qty and qty > 0\<close> skips \<^verbatim>\<open>None\<close> and 0,
  and \<^verbatim>\<open>.iloc[0]\<close> reads the first row of the description, an IndexError when there is
  none.
\<close>

definition result_for ::
  "float_ops \<Rightarrow> data_row list \<Rightarrow> valuation \<Rightarrow> string \<Rightarrow> exn + result_row list" where
  "result_for ops data vals food =
     (case vals (Buy food) of
        None \<Rightarrow> Inr []
      | Some v \<Rightarrow>
          if v \<noteq> 0 \<and> v > 0 then
            (let qty = py_round v in
             case filter (\<lambda>row. Package_Description row = food) data of
               [] \<Rightarrow> Inl IndexError
             | row_data # _ \<Rightarrow> Inr [result_row_of ops row_data food qty])
          else Inr [])"

fun collect_results ::
  "float_ops \<Rightarrow> data_row list \<Rightarrow> valuation \<Rightarrow> string list \<Rightarrow> exn + result_row list" where
  "collect_results ops data vals [] = Inr []"
| "collect_results ops data vals (food # foods) =
     (case result_for ops data vals food of
        Inl e \<Rightarrow> Inl e
      | Inr rows \<Rightarrow>
          (case collect_results ops data vals foods of
             Inl e \<Rightarrow> Inl e
           | Inr rest \<Rightarrow> Inr (rows @ rest)))"

record plan =
  results_df :: "result_row list"
  total_cost :: real
  total_items :: int
  total_weight :: real

text \<open>
  \<^verbatim>\<open>pd.DataFrame(results)\<close> of an empty list has no column, so reading the column
  \<^verbatim>\<open>Weekly_Cost\<close> of it raises a KeyError.
\<close>

definition summarize :: "result_row list \<Rightarrow> exn + plan" where
  "summarize results =
     (if results = [] then Inl (KeyError ''Weekly_Cost'')
      else Inr \<lparr>results_df = results,
                total_cost = sum_list (map Weekly_Cost results),
                total_items = sum_list (map Qty_to_Buy results),
                total_weight = sum_list (map Total_Weight_lb results)\<rparr>)"

subsection \<open>The tab (lines 256 to 465)\<close>

text \<open>
  What the tab shows: one of the two warnings of its guard, nothing when the button is
  not pressed, the plan, the status of a solve that is not optimal, or the exception the
  \<^verbatim>\<open>except\<close> clause caught. The display of the plan by store and the download
  are not modelled.
\<close>

datatype outcome =
    Warning string
  | NoRequest
  | Success plan
  | OptimizationFailed string
  | ErrorDuring exn

text \<open>What the request did on its way: a problem built, a call of the solver.\<close>

datatype event = ModelBuilt built | SolveCalled built

definition generate :: "float_ops \<Rightarrow> solver \<Rightarrow> session_state \<Rightarrow> outcome \<times> event list" where
  "generate ops solve st =
     (case required_nutrients (check_df st) (household_members st) of
        Inl e \<Rightarrow> (ErrorDuring e, [])
      | Inr required \<Rightarrow>
          (case merge_data (cost_df st) (nutrition_df st) (stock_df st) of
             Inl e \<Rightarrow> (ErrorDuring e, [])
           | Inr data \<Rightarrow>
               (let b = build_model data required in
                case solve b of
                  Inl e \<Rightarrow> (ErrorDuring e, [ModelBuilt b, SolveCalled b])
                | Inr (status, vals) \<Rightarrow>
                    if LpStatus status = ''Optimal'' then
                      (case collect_results ops data vals (map fst (buy_qty b)) of
                         Inl e \<Rightarrow> (ErrorDuring e, [ModelBuilt b, SolveCalled b])
                       | Inr results \<Rightarrow>
                           (case summarize results of
                              Inl e \<Rightarrow> (ErrorDuring e, [ModelBuilt b, SolveCalled b])
                            | Inr p \<Rightarrow> (Success p, [ModelBuilt b, SolveCalled b])))
                    else (OptimizationFailed (LpStatus status), [ModelBuilt b, SolveCalled b]))))"

definition tab3 ::
  "float_ops \<Rightarrow> solver \<Rightarrow> session_state \<Rightarrow> bool \<Rightarrow> outcome \<times> event list" where
  "tab3 ops solve st pressed =
     (if household_members st = [] then (Warning ''Please add household members first'', [])
      else if cost_df st = None then (Warning ''Please upload the grocery list file'', [])
      else if pressed then generate ops solve st
      else (NoRequest, []))"

text \<open>The lines of the plan the tab displays: none when there is no plan.\<close>

definition displayed_rows :: "outcome \<Rightarrow> result_row list" where
  "displayed_rows out = (case out of Success p \<Rightarrow> results_df p | _ \<Rightarrow> [])"

subsection \<open>What a problem means\<close>

text \<open>
  The meaning PuLP and the solver give to the problem: an assignment gives a number to
  every variable, an expression is evaluated under it, and a constraint compares its two
  sides.
\<close>

type_synonym assignment = "var_ref \<Rightarrow> real"

definition eval_affine :: "assignment \<Rightarrow> affine \<Rightarrow> real" where
  "eval_affine a e = sum_list (map (\<lambda>(k, v). k * a v) (terms e)) + constant_term e"

definition satisfied :: "assignment \<Rightarrow> lp_constraint \<Rightarrow> bool" where
  "satisfied a c =
     (case sense c of
        GE \<Rightarrow> eval_affine a (rhs c) \<le> eval_affine a (lhs c)
      | LE \<Rightarrow> eval_affine a (lhs c) \<le> eval_affine a (rhs c)
      | EQ \<Rightarrow> eval_affine a (lhs c) = eval_affine a (rhs c))"

definition within_bounds :: "lp_variable \<Rightarrow> real \<Rightarrow> bool" where
  "within_bounds v x \<longleftrightarrow>
     (case lowBound v of None \<Rightarrow> True | Some l \<Rightarrow> l \<le> x) \<and>
     (case upBound v of None \<Rightarrow> True | Some u \<Rightarrow> x \<le> u)"

text \<open>A binary variable is 0 or 1; an integer one is a whole number within its bounds.\<close>

definition in_domain :: "lp_variable \<Rightarrow> real \<Rightarrow> bool" where
  "in_domain v x =
     (case cat v of
        Binary \<Rightarrow> x = 0 \<or> x = 1
      | Integer \<Rightarrow> of_int \<lfloor>x\<rfloor> = x \<and> within_bounds v x
      | Continuous \<Rightarrow> within_bounds v x)"

definition lookup_var :: "built \<Rightarrow> var_ref \<Rightarrow> lp_variable option" where
  "lookup_var b r = (case r of Buy d \<Rightarrow> map_of (buy_qty b) d | Has c \<Rightarrow> map_of (has_cat b) c)"

definition constraint_vars :: "lp_constraint \<Rightarrow> var_ref list" where
  "constraint_vars c = map snd (terms (lhs c)) @ map snd (terms (rhs c))"

text \<open>The variables of a problem are the ones its objective and its constraints mention.\<close>

definition problem_vars :: "lp_problem \<Rightarrow> var_ref list" where
  "problem_vars p = map snd (terms (objective p)) @ concat (map constraint_vars (constraints p))"

text \<open>The constraints of a problem that carry a name, and those that mention a variable.\<close>

definition named :: "string \<Rightarrow> lp_constraint \<Rightarrow> bool" where
  "named s c \<longleftrightarrow> c_name c = Some s"

definition constraints_named :: "string \<Rightarrow> lp_problem \<Rightarrow> lp_constraint list" where
  "constraints_named s p = filter (named s) (constraints p)"

definition mentions :: "var_ref \<Rightarrow> lp_constraint \<Rightarrow> bool" where
  "mentions r c \<longleftrightarrow> r \<in> set (constraint_vars c)"

definition constraints_on :: "var_ref \<Rightarrow> lp_problem \<Rightarrow> lp_constraint list" where
  "constraints_on r p = filter (mentions r) (constraints p)"

definition var_ok :: "built \<Rightarrow> assignment \<Rightarrow> var_ref \<Rightarrow> bool" where
  "var_ok b a r = (case lookup_var b r of None \<Rightarrow> False | Some v \<Rightarrow> in_domain v (a r))"

definition feasible :: "built \<Rightarrow> assignment \<Rightarrow> bool" where
  "feasible b a \<longleftrightarrow>
     list_all (var_ok b a) (problem_vars (model b)) \<and> list_all (satisfied a) (constraints (model b))"

definition objective_value :: "built \<Rightarrow> assignment \<Rightarrow> real" where
  "objective_value b a = eval_affine a (objective (model b))"

text \<open>The least cost of a feasible assignment, when there is one.\<close>

definition is_optimal_value :: "built \<Rightarrow> real \<Rightarrow> bool" where
  "is_optimal_value b v \<longleftrightarrow>
     (\<exists>a. feasible b a \<and> objective_value b a = v) \<and>
     (\<forall>a. feasible b a \<longrightarrow> v \<le> objective_value b a)"

text \<open>The same problem with the constraints of the diversity loop left out.\<close>

definition without_diversity :: "data_row list \<Rightarrow> required \<Rightarrow> built" where
  "without_diversity data req =
     (let b = build_model data req in
      b\<lparr>model := (model b)\<lparr>constraints := nutrient_constraints data req\<rparr>\<rparr>)"

text \<open>An assignment with every indicator of a category set to 0.\<close>

definition indicators_zero :: "assignment \<Rightarrow> assignment" where
  "indicators_zero a = (\<lambda>r. case r of Buy d \<Rightarrow> a r | Has c \<Rightarrow> 0)"

text \<open>Every purchase variable has a value within its bounds.\<close>

definition purchases_within_bounds :: "data_row list \<Rightarrow> assignment \<Rightarrow> bool" where
  "purchases_within_bounds data a =
     list_all (\<lambda>(d, lv). within_bounds lv (a (Buy d))) (mk_buy_qty data)"

subsection \<open>The requirement resolver as the specification words it\<close>

text \<open>
  The row the specification selects for a member: the first row whose group equals the
  gender of the member, both compared without regard to case, and whose closed age
  range holds the age of the member.
\<close>

definition spec_selected_row :: "check_row list \<Rightarrow> member \<Rightarrow> check_row option" where
  "spec_selected_row check m =
     find (\<lambda>r. lower (Age_Sex_Group r) = lower (gender_str (gender m))
               \<and> Min_Age r \<le> age m \<and> age m \<le> Max_Age r) check"

definition spec_contribution :: "(check_row \<Rightarrow> real) \<Rightarrow> check_row list \<Rightarrow> member \<Rightarrow> real" where
  "spec_contribution col check m =
     (case spec_selected_row check m of None \<Rightarrow> 0 | Some r \<Rightarrow> col r)"

subsection \<open>Sample tables\<close>

text \<open>A small session, on which the properties below are run.\<close>

definition ex_cost :: "cost_row list" where
  "ex_cost =
     [\<lparr>c_Food = ''Rice'', c_Package_Description = ''Rice 5 lb'', c_Store = ''Kroger'',
       c_price = 5, c_lb = 5\<rparr>,
      \<lparr>c_Food = ''Beans'', c_Package_Description = ''Beans, 1 lb (dry)'', c_Store = ''Meijer'',
       c_price = 2, c_lb = 1\<rparr>,
      \<lparr>c_Food = ''Milk'', c_Package_Description = ''Milk 1 gal'', c_Store = ''Costco'',
       c_price = 1 / 8, c_lb = 8\<rparr>]"

definition ex_nutrition :: "nutrition_row list" where
  "ex_nutrition =
     [\<lparr>n_Food = ''Rice'', n_kcal = 8000, n_Protein_g = 150, n_Carbs_g = 1800, n_Fat_g = 15,
       n_Food_Basket = ''Grains & Carbohydrate Sources'', n_Max_quantity = 3\<rparr>,
      \<lparr>n_Food = ''Beans'', n_kcal = 1500, n_Protein_g = 100, n_Carbs_g = 280, n_Fat_g = 5,
       n_Food_Basket = ''Protein'', n_Max_quantity = 4\<rparr>,
      \<lparr>n_Food = ''Milk'', n_kcal = 2400, n_Protein_g = 128, n_Carbs_g = 192, n_Fat_g = 128,
       n_Food_Basket = ''Dairy'', n_Max_quantity = 2\<rparr>]"

definition ex_check :: "check_row list" where
  "ex_check =
     [\<lparr>Age_Sex_Group = ''Male'', Min_Age = 19, Max_Age = 50, Min_Calorie = 2000,
       min_Protein = 50, min_Carbohydrate = 130, min_Fat = 5\<rparr>,
      \<lparr>Age_Sex_Group = ''FEMALE'', Min_Age = 19, Max_Age = 50, Min_Calorie = 1800,
       min_Protein = 46, min_Carbohydrate = 130, min_Fat = 4\<rparr>]"

definition ex_stock :: "stock_row list" where
  "ex_stock = [\<lparr>s_Package_Description = ''Rice 5 lb'', s_Quantity_in_Stock_lb = 1\<rparr>]"

definition ex_members :: "member list" where
  "ex_members = [\<lparr>age = 25, gender = Male\<rparr>, \<lparr>age = 30, gender = Female\<rparr>, \<lparr>age = 5, gender = Female\<rparr>]"

definition ex_state :: session_state where
  "ex_state =
     \<lparr>household_members = ex_members, cost_df = Some ex_cost, nutrition_df = Some ex_nutrition,
      check_df = Some ex_check, stock_df = Some ex_stock\<rparr>"

definition ex_values :: valuation where
  "ex_values r = (case r of Buy d \<Rightarrow> Some 2 | Has c \<Rightarrow> Some 0)"

definition ex_solver :: solver where
  "ex_solver b = Inr (Optimal, ex_values)"

text \<open>
  The float operations of the sample runs: the exact product, and the rounding to two
  decimals with a tie going to the even digit. On the numbers of the sample runs (whole
  numbers, 0.25 and 0.125) the doubles of the code give the same results; on other
  numbers they need not.
\<close>

definition decimal_round2 :: "real \<Rightarrow> real" where
  "decimal_round2 x = of_int (py_round (x * 100)) / 100"

definition exact_ops :: float_ops where
  "exact_ops = \<lparr>f_mul = (\<lambda>x y. x * y), f_round2 = decimal_round2\<rparr>"

text \<open>A solver that finds the problem infeasible, and one that buys nothing.\<close>

definition infeasible_solver :: solver where
  "infeasible_solver b = Inr (Infeasible, (\<lambda>r. None))"

definition zero_values :: valuation where
  "zero_values r = (case r of Buy d \<Rightarrow> Some 0 | Has c \<Rightarrow> Some 0)"

definition zero_solver :: solver where
  "zero_solver b = Inr (Optimal, zero_values)"

text \<open>The merged table and the aggregate of the sample session.\<close>

definition ex_data :: "data_row list" where
  "ex_data =
     [\<lparr>Food = ''Rice'', Package_Description = ''Rice 5 lb'', Store = ''Kroger'', price = 5, lb = 5,
       kcal = 8000, Protein_g = 150, Carbs_g = 1800, Fat_g = 15,
       Food_Basket = ''Grains & Carbohydrate Sources'', Max_quantity = 3,
       Quantity_in_Stock_lb = 1\<rparr>,
      \<lparr>Food = ''Beans'', Package_Description = ''Beans, 1 lb (dry)'', Store = ''Meijer'',
       price = 2, lb = 1, kcal = 1500, Protein_g = 100, Carbs_g = 280, Fat_g = 5,
       Food_Basket = ''Protein'', Max_quantity = 4, Quantity_in_Stock_lb = 0\<rparr>,
      \<lparr>Food = ''Milk'', Package_Description = ''Milk 1 gal'', Store = ''Costco'',
       price = 1 / 8, lb = 8, kcal = 2400, Protein_g = 128, Carbs_g = 192, Fat_g = 128,
       Food_Basket = ''Dairy'', Max_quantity = 2, Quantity_in_Stock_lb = 0\<rparr>]"

definition ex_required :: required where
  "ex_required =
     \<lparr>req_Min_Calorie = 3800, req_Min_Protein = 96, req_Min_Carbohydrate = 260, req_Min_Fat = 9\<rparr>"

text \<open>An assignment for the sample problem: two of every package, every indicator 0.\<close>

definition ex_assignment :: assignment where
  "ex_assignment r = (case r of Buy d \<Rightarrow> 2 | Has c \<Rightarrow> 0)"

text \<open>
  A session in which two foods share a package description, and a solver that buys five
  of it.
\<close>

definition shared_cost :: "cost_row list" where
  "shared_cost =
     [\<lparr>c_Food = ''Rice'', c_Package_Description = ''5 lb bag'', c_Store = ''Kroger'',
       c_price = 5, c_lb = 5\<rparr>,
      \<lparr>c_Food = ''Flour'', c_Package_Description = ''5 lb bag'', c_Store = ''Meijer'',
       c_price = 4, c_lb = 5\<rparr>]"

definition shared_nutrition :: "nutrition_row list" where
  "shared_nutrition =
     [\<lparr>n_Food = ''Rice'', n_kcal = 3000, n_Protein_g = 60, n_Carbs_g = 660, n_Fat_g = 5,
       n_Food_Basket = ''Grains & Carbohydrate Sources'', n_Max_quantity = 1\<rparr>,
      \<lparr>n_Food = ''Flour'', n_kcal = 2400, n_Protein_g = 80, n_Carbs_g = 500, n_Fat_g = 8,
       n_Food_Basket = ''Grains & Carbohydrate Sources'', n_Max_quantity = 5\<rparr>]"

definition shared_state :: session_state where
  "shared_state =
     \<lparr>household_members = ex_members, cost_df = Some shared_cost,
      nutrition_df = Some shared_nutrition, check_df = Some ex_check, stock_df = Some ex_stock\<rparr>"

definition shared_data :: "data_row list" where
  "shared_data =
     [\<lparr>Food = ''Rice'', Package_Description = ''5 lb bag'', Store = ''Kroger'', price = 5, lb = 5,
       kcal = 3000, Protein_g = 60, Carbs_g = 660, Fat_g = 5,
       Food_Basket = ''Grains & Carbohydrate Sources'', Max_quantity = 1,
       Quantity_in_Stock_lb = 0\<rparr>,
      \<lparr>Food = ''Flour'', Package_Description = ''5 lb bag'', Store = ''Meijer'', price = 4, lb = 5,
       kcal = 2400, Protein_g = 80, Carbs_g = 500, Fat_g = 8,
       Food_Basket = ''Grains & Carbohydrate Sources'', Max_quantity = 5,
       Quantity_in_Stock_lb = 0\<rparr>]"

definition shared_values :: valuation where
  "shared_values r = (case r of Buy d \<Rightarrow> Some 5 | Has c \<Rightarrow> Some 0)"

definition shared_solver :: solver where
  "shared_solver b = Inr (Optimal, shared_values)"

definition shared_assignment :: assignment where
  "shared_assignment r = (case r of Buy d \<Rightarrow> 5 | Has c \<Rightarrow> 0)"

text \<open>A solver that leaves a value close to 0 in every purchase variable.\<close>

definition tiny_values :: valuation where
  "tiny_values r = (case r of Buy d \<Rightarrow> Some (1 / 1000000000) | Has c \<Rightarrow> Some 0)"

definition tiny_solver :: solver where
  "tiny_solver b = Inr (Optimal, tiny_values)"

text \<open>A solver that leaves 1 in every purchase variable.\<close>

definition one_values :: valuation where
  "one_values r = (case r of Buy d \<Rightarrow> Some 1 | Has c \<Rightarrow> Some 0)"

section \<open>Properties\<close>

lemma lower_gender_str: "lower (gender_str g) = gender_str g"
  by (cases g) (simp_all add: lower_def lower_char_def)

lemma find_first_of_filter:
  "find P xs = (case filter P xs of [] \<Rightarrow> None | r # _ \<Rightarrow> Some r)"
  by (induction xs) auto

lemma add_member_spec:
  "add_member check req m =
     \<lparr>req_Min_Calorie = req_Min_Calorie req + spec_contribution Min_Calorie check m,
      req_Min_Protein = req_Min_Protein req + spec_contribution min_Protein check m,
      req_Min_Carbohydrate = req_Min_Carbohydrate req + spec_contribution min_Carbohydrate check m,
      req_Min_Fat = req_Min_Fat req + spec_contribution min_Fat check m\<rparr>"
proof -
  have mask: "(\<lambda>r. lower (Age_Sex_Group r) = lower (gender_str (gender m))
      \<and> Min_Age r \<le> age m \<and> age m \<le> Max_Age r) = row_mask m"
    by (rule ext) (simp add: row_mask_def lower_gender_str)
  show ?thesis
    by (cases "filter (row_mask m) check")
      (simp_all add: add_member_def spec_contribution_def spec_selected_row_def mask
        find_first_of_filter)
qed

lemma foldl_add_member:
  "foldl (add_member check) req ms =
     \<lparr>req_Min_Calorie = req_Min_Calorie req + (\<Sum>m\<leftarrow>ms. spec_contribution Min_Calorie check m),
      req_Min_Protein = req_Min_Protein req + (\<Sum>m\<leftarrow>ms. spec_contribution min_Protein check m),
      req_Min_Carbohydrate =
        req_Min_Carbohydrate req + (\<Sum>m\<leftarrow>ms. spec_contribution min_Carbohydrate check m),
      req_Min_Fat = req_Min_Fat req + (\<Sum>m\<leftarrow>ms. spec_contribution min_Fat check m)\<rparr>"
proof (induction ms arbitrary: req)
  case Nil
  show ?case by simp
next
  case (Cons m ms)
  show ?case
    by (simp add: Cons.IH add_member_spec [of check req m] add.assoc)
qed

subsection \<open>The requirement resolver\<close>

text \<open>
  Claim C6. For every household member the requirement loop selects the row of the
  requirement table whose group equals the gender of the member, compared without regard
  to case, and whose closed range of ages holds the age of the member, and adds the four
  daily minimums of that row to the aggregate. A member that matches no row adds nothing,
  and the loop does not fail: with the table loaded it always returns the aggregate.
\<close>

theorem resolver_sums_selected_rows:
  "required_nutrients (Some check) members =
     Inr \<lparr>req_Min_Calorie = (\<Sum>m\<leftarrow>members. spec_contribution Min_Calorie check m),
          req_Min_Protein = (\<Sum>m\<leftarrow>members. spec_contribution min_Protein check m),
          req_Min_Carbohydrate = (\<Sum>m\<leftarrow>members. spec_contribution min_Carbohydrate check m),
          req_Min_Fat = (\<Sum>m\<leftarrow>members. spec_contribution min_Fat check m)\<rparr>
   \<and> (spec_selected_row check m = None \<longrightarrow> add_member check req m = req)
   \<and> (spec_selected_row check m = Some r \<longrightarrow>
        r \<in> set check \<and> lower (Age_Sex_Group r) = lower (gender_str (gender m))
        \<and> Min_Age r \<le> age m \<and> age m \<le> Max_Age r)"
proof (intro conjI impI)
  show "required_nutrients (Some check) members =
     Inr \<lparr>req_Min_Calorie = (\<Sum>m\<leftarrow>members. spec_contribution Min_Calorie check m),
          req_Min_Protein = (\<Sum>m\<leftarrow>members. spec_contribution min_Protein check m),
          req_Min_Carbohydrate = (\<Sum>m\<leftarrow>members. spec_contribution min_Carbohydrate check m),
          req_Min_Fat = (\<Sum>m\<leftarrow>members. spec_contribution min_Fat check m)\<rparr>"
    by (simp add: required_nutrients_def foldl_add_member required_init_def)
next
  assume "spec_selected_row check m = None"
  then show "add_member check req m = req"
    by (simp add: add_member_spec spec_contribution_def)
next
  assume sel: "spec_selected_row check m = Some r"
  then obtain i where "i < length check" "check ! i = r"
    "lower (Age_Sex_Group r) = lower (gender_str (gender m)) \<and> Min_Age r \<le> age m \<and> age m \<le> Max_Age r"
    unfolding spec_selected_row_def find_Some_iff by blast
  then show "r \<in> set check" "lower (Age_Sex_Group r) = lower (gender_str (gender m))"
    "Min_Age r \<le> age m" "age m \<le> Max_Age r"
    by auto
qed

theorem resolver_sums_selected_rows_witness:
  "required_nutrients (Some ex_check) ex_members =
     Inr \<lparr>req_Min_Calorie = 3800, req_Min_Protein = 96, req_Min_Carbohydrate = 260, req_Min_Fat = 9\<rparr>
   \<and> spec_selected_row ex_check \<lparr>age = 5, gender = Female\<rparr> = None
   \<and> add_member ex_check required_init \<lparr>age = 5, gender = Female\<rparr> = required_init
   \<and> spec_selected_row ex_check \<lparr>age = 30, gender = Female\<rparr> = Some (ex_check ! 1)
   \<and> lower (Age_Sex_Group (ex_check ! 1)) = ''female''"
proof -
  have none: "spec_selected_row ex_check \<lparr>age = 5, gender = Female\<rparr> = None"
    by (simp add: spec_selected_row_def ex_check_def lower_def lower_char_def)
  have some: "spec_selected_row ex_check \<lparr>age = 30, gender = Female\<rparr> = Some (ex_check ! 1)"
    by (simp add: spec_selected_row_def ex_check_def lower_def lower_char_def)
  have male: "spec_selected_row ex_check \<lparr>age = 25, gender = Male\<rparr> = Some (ex_check ! 0)"
    by (simp add: spec_selected_row_def ex_check_def lower_def lower_char_def)
  have low: "lower (Age_Sex_Group (ex_check ! 1)) = ''female''"
    by (simp add: spec_selected_row_def ex_check_def lower_def lower_char_def)
  from resolver_sums_selected_rows [of ex_check ex_members "\<lparr>age = 5, gender = Female\<rparr>" required_init]
    none some male low
  show ?thesis
    by (simp add: ex_members_def spec_contribution_def) (simp add: ex_check_def)
qed

subsection \<open>The guard of the tab\<close>

text \<open>
  Claim C9. With no household member the tab shows its warning and does nothing else:
  whatever the solver, the tables and the button, no problem is built and the solver is
  not called.
\<close>

theorem empty_household_short_circuit:
  "tab3 ops solve (st\<lparr>household_members := []\<rparr>) pressed =
     (Warning ''Please add household members first'', [])"
  by (simp add: tab3_def)

theorem empty_household_short_circuit_witness:
  "tab3 exact_ops ex_solver (ex_state\<lparr>household_members := []\<rparr>) True =
     (Warning ''Please add household members first'', [])"
  by (rule empty_household_short_circuit)

subsection \<open>The sample session\<close>

lemma ex_merge: "merge_data (Some ex_cost) (Some ex_nutrition) (Some ex_stock) = Inr ex_data"
  by (simp add: merge_data_def merge_stock_def merge_food_def joined_row_def ex_cost_def
      ex_nutrition_def ex_stock_def ex_data_def)

lemma ex_requirements: "required_nutrients (Some ex_check) ex_members = Inr ex_required"
  by (simp add: required_nutrients_def add_member_def row_mask_def required_init_def
      ex_check_def ex_members_def ex_required_def lower_def lower_char_def)

subsection \<open>A solve that is not optimal\<close>

lemma LpStatus_Optimal: "LpStatus s = ''Optimal'' \<longleftrightarrow> s = Optimal"
  by (cases s) simp_all

text \<open>
  Claim C7. When the request reaches the solver and the solver gives a status other than
  Optimal, the tab shows that status, as \<^verbatim>\<open>LpStatus\<close> prints it, and no line of a
  plan. The solver was called once, on the problem as it was built: nothing is solved
  again, no constraint is relaxed, and the values of the variables are not read.
\<close>

theorem non_optimal_status_surfaced:
  assumes "household_members st \<noteq> []" and "cost_df st \<noteq> None"
    and "required_nutrients (check_df st) (household_members st) = Inr req"
    and "merge_data (cost_df st) (nutrition_df st) (stock_df st) = Inr data"
    and "solve (build_model data req) = Inr (status, vals)"
    and "status \<noteq> Optimal"
  shows "tab3 ops solve st True =
           (OptimizationFailed (LpStatus status),
            [ModelBuilt (build_model data req), SolveCalled (build_model data req)])
         \<and> displayed_rows (fst (tab3 ops solve st True)) = []"
  using assms by (simp add: tab3_def generate_def LpStatus_Optimal displayed_rows_def Let_def)

theorem non_optimal_status_surfaced_witness:
  "tab3 exact_ops infeasible_solver ex_state True =
     (OptimizationFailed ''Infeasible'',
      [ModelBuilt (build_model ex_data ex_required), SolveCalled (build_model ex_data ex_required)])
   \<and> displayed_rows (fst (tab3 exact_ops infeasible_solver ex_state True)) = []"
proof -
  have "household_members ex_state \<noteq> []" and "cost_df ex_state \<noteq> None"
    by (simp_all add: ex_state_def ex_members_def)
  moreover have "required_nutrients (check_df ex_state) (household_members ex_state) = Inr ex_required"
    by (simp add: ex_state_def ex_requirements)
  moreover have "merge_data (cost_df ex_state) (nutrition_df ex_state) (stock_df ex_state) = Inr ex_data"
    by (simp add: ex_state_def ex_merge)
  moreover have "infeasible_solver (build_model ex_data ex_required) = Inr (Infeasible, (\<lambda>r. None))"
    by (simp add: infeasible_solver_def)
  moreover have "Infeasible \<noteq> Optimal" by simp
  ultimately show ?thesis
    using non_optimal_status_surfaced [of ex_state ex_required ex_data infeasible_solver Infeasible "\<lambda>r. None" exact_ops]
    by (simp add: displayed_rows_def)
qed

subsection \<open>The dictionary of purchase variables\<close>

lemma find_append_first:
  "find P (xs @ ys) = (case find P xs of None \<Rightarrow> find P ys | Some x \<Rightarrow> Some x)"
  by (induction xs) auto

lemma foldl_update_keys:
  "fst ` set (foldl (\<lambda>d row. AList.update (K row) (F row) d) acc rows) = fst ` set acc \<union> K ` set rows"
  by (induction rows arbitrary: acc) (auto simp: AList.dom_update)

lemma foldl_update_distinct:
  "distinct (map fst acc) \<Longrightarrow>
   distinct (map fst (foldl (\<lambda>d row. AList.update (K row) (F row) d) acc rows))"
  by (induction rows arbitrary: acc) (simp_all add: AList.distinct_update)

lemma foldl_update_map_of:
  "map_of (foldl (\<lambda>d row. AList.update (K row) (F row) d) acc rows) k =
     (case find (\<lambda>row. K row = k) (rev rows) of None \<Rightarrow> map_of acc k | Some row \<Rightarrow> Some (F row))"
  by (induction rows arbitrary: acc)
    (auto simp: find_append_first AList.update_conv' split: option.splits)

lemma mk_buy_qty_keys: "set (map fst (mk_buy_qty data)) = Package_Description ` set data"
  using foldl_update_keys [of Package_Description buy_var "[]" data]
  by (simp add: mk_buy_qty_def)

lemma mk_buy_qty_distinct: "distinct (map fst (mk_buy_qty data))"
  using foldl_update_distinct [of "[]" Package_Description buy_var data]
  by (simp add: mk_buy_qty_def)

lemma map_of_mk_buy_qty:
  "map_of (mk_buy_qty data) d =
     map_option buy_var (find (\<lambda>row. Package_Description row = d) (rev data))"
  using foldl_update_map_of [of Package_Description buy_var "[]" data d]
  by (simp add: mk_buy_qty_def split: option.splits)

subsection \<open>An optimal solve that buys nothing\<close>

lemma buy_qty_build_model: "buy_qty (build_model data req) = mk_buy_qty data"
  by (simp add: build_model_def)

lemma collect_results_nothing:
  "(\<And>d v. d \<in> set foods \<Longrightarrow> vals (Buy d) = Some v \<Longrightarrow> v \<le> 0) \<Longrightarrow>
   collect_results ops data vals foods = Inr []"
proof (induction foods)
  case Nil
  show ?case by simp
next
  case (Cons d foods)
  have "result_for ops data vals d = Inr []"
    using Cons.prems [of d] by (auto simp: result_for_def split: option.splits)
  moreover have "collect_results ops data vals foods = Inr []"
    by (rule Cons.IH) (use Cons.prems in auto)
  ultimately show ?case by simp
qed

text \<open>
  Claim C10. When the solver gives Optimal and no purchase variable has a value above 0
  (each is \<^verbatim>\<open>None\<close>, zero or negative), the loop collects no row, the DataFrame of
  the results has no column, and reading \<^verbatim>\<open>Weekly_Cost\<close> raises a KeyError: the request
  ends in the \<^verbatim>\<open>except\<close> clause and shows the error, not a plan with totals of zero.
\<close>

theorem optimal_without_purchase_raises:
  assumes "household_members st \<noteq> []" and "cost_df st \<noteq> None"
    and "required_nutrients (check_df st) (household_members st) = Inr req"
    and "merge_data (cost_df st) (nutrition_df st) (stock_df st) = Inr data"
    and "solve (build_model data req) = Inr (Optimal, vals)"
    and "\<And>row v. row \<in> set data \<Longrightarrow> vals (Buy (Package_Description row)) = Some v \<Longrightarrow> v \<le> 0"
  shows "tab3 ops solve st True =
           (ErrorDuring (KeyError ''Weekly_Cost''),
            [ModelBuilt (build_model data req), SolveCalled (build_model data req)])"
proof -
  have "collect_results ops data vals (map fst (mk_buy_qty data)) = Inr []"
  proof (rule collect_results_nothing)
    fix d v
    assume "d \<in> set (map fst (mk_buy_qty data))" and "vals (Buy d) = Some v"
    then show "v \<le> 0"
      using assms(6) unfolding mk_buy_qty_keys by auto
  qed
  then show ?thesis
    using assms(1-5)
    by (simp add: tab3_def generate_def buy_qty_build_model summarize_def Let_def)
qed

theorem optimal_without_purchase_raises_witness:
  "tab3 exact_ops zero_solver ex_state True =
     (ErrorDuring (KeyError ''Weekly_Cost''),
      [ModelBuilt (build_model ex_data ex_required), SolveCalled (build_model ex_data ex_required)])"
proof -
  have "household_members ex_state \<noteq> []" and "cost_df ex_state \<noteq> None"
    by (simp_all add: ex_state_def ex_members_def)
  moreover have "required_nutrients (check_df ex_state) (household_members ex_state) = Inr ex_required"
    by (simp add: ex_state_def ex_requirements)
  moreover have "merge_data (cost_df ex_state) (nutrition_df ex_state) (stock_df ex_state) = Inr ex_data"
    by (simp add: ex_state_def ex_merge)
  moreover have "zero_solver (build_model ex_data ex_required) = Inr (Optimal, zero_values)"
    by (simp add: zero_solver_def)
  moreover have "\<And>row v. row \<in> set ex_data \<Longrightarrow>
      zero_values (Buy (Package_Description row)) = Some v \<Longrightarrow> v \<le> 0"
    by (simp add: zero_values_def)
  ultimately show ?thesis
    by (rule optimal_without_purchase_raises)
qed

subsection \<open>The nutrient constraints\<close>

lemma presence_not_requirement: "c @ ''_presence'' \<noteq> k @ ''_requirement''"
proof
  assume "c @ ''_presence'' = k @ ''_requirement''"
  then have "last (c @ ''_presence'') = last (k @ ''_requirement'')"
    by simp
  then show False by simp
qed

lemma diversity_not_named_requirement:
  "filter (named (k @ ''_requirement'')) (diversity_constraints data) = []"
proof -
  have "filter (named (k @ ''_requirement'')) (category_constraints data c) = []" for c
    by (simp add: category_constraints_def Let_def named_def presence_constraint_def
        at_most_one_constraint_def presence_not_requirement)
  then show ?thesis
    by (induction basket_categories) (simp_all add: diversity_constraints_def filter_concat)
qed

lemma nutrient_key_inject: "nutrient_key n' = nutrient_key n \<longleftrightarrow> n' = n"
  by (cases n; cases n') simp_all

lemma nutrient_named_once:
  "filter (named (nutrient_key n @ ''_requirement'')) (nutrient_constraints data req) =
     [nutrient_constraint data req n]"
  by (cases n)
    (simp_all add: nutrient_constraints_def nutrient_loop_def named_def nutrient_constraint_def)

lemma eval_affine_terms:
  "eval_affine a \<lparr>terms = map (\<lambda>row. (k row, v row)) rows, constant_term = c\<rparr> =
     (\<Sum>row\<leftarrow>rows. k row * a (v row)) + c"
  by (simp add: eval_affine_def comp_def)

text \<open>
  Claim C1. For each of the four nutrients the problem that is built holds exactly one
  constraint with the name of that nutrient's requirement, and it reads: the sum over the
  rows of the merged table of the nutrient of the row times the purchase variable of its
  description, plus the sum over the rows of the nutrient times the stock of the row, is
  at least seven times the aggregate daily requirement. The stock sum is the constant of
  the left side: no variable weighs it.
\<close>

theorem nutrient_floor_constraints:
  "constraints_named (nutrient_key n @ ''_requirement'') (model (build_model data req)) =
     [\<lparr>lhs = \<lparr>terms = map (\<lambda>row. (column_of n row, Buy (Package_Description row))) data,
             constant_term = (\<Sum>row\<leftarrow>data. column_of n row * Quantity_in_Stock_lb row)\<rparr>,
       sense = GE,
       rhs = \<lparr>terms = [], constant_term = required_of req n * 7\<rparr>,
       c_name = Some (nutrient_key n @ ''_requirement'')\<rparr>]
   \<and> (\<forall>c a. c \<in> set (constraints_named (nutrient_key n @ ''_requirement'')
                        (model (build_model data req))) \<longrightarrow>
        satisfied a c =
          (required_of req n * 7 \<le>
             (\<Sum>row\<leftarrow>data. column_of n row * a (Buy (Package_Description row)))
             + (\<Sum>row\<leftarrow>data. column_of n row * Quantity_in_Stock_lb row)))"
proof -
  have one: "constraints_named (nutrient_key n @ ''_requirement'') (model (build_model data req)) =
      [nutrient_constraint data req n]"
    by (simp add: constraints_named_def build_model_def nutrient_named_once
        diversity_not_named_requirement)
  have sem: "satisfied a (nutrient_constraint data req n) =
      (required_of req n * 7 \<le>
         (\<Sum>row\<leftarrow>data. column_of n row * a (Buy (Package_Description row)))
         + (\<Sum>row\<leftarrow>data. column_of n row * Quantity_in_Stock_lb row))" for a
    by (simp add: satisfied_def nutrient_constraint_def eval_affine_terms)
      (simp add: eval_affine_def)
  show ?thesis
    using sem by (simp add: one) (simp add: nutrient_constraint_def)
qed

theorem nutrient_floor_constraints_witness:
  "constraints_named ''Min_Protein_requirement'' (model (build_model ex_data ex_required)) =
     [\<lparr>lhs = \<lparr>terms = [(150, Buy ''Rice 5 lb''), (100, Buy ''Beans, 1 lb (dry)''),
                       (128, Buy ''Milk 1 gal'')],
             constant_term = 150\<rparr>,
       sense = GE,
       rhs = \<lparr>terms = [], constant_term = 672\<rparr>,
       c_name = Some ''Min_Protein_requirement''\<rparr>]
   \<and> satisfied ex_assignment
        \<lparr>lhs = \<lparr>terms = [(150, Buy ''Rice 5 lb''), (100, Buy ''Beans, 1 lb (dry)''),
                       (128, Buy ''Milk 1 gal'')],
             constant_term = 150\<rparr>,
         sense = GE,
         rhs = \<lparr>terms = [], constant_term = 672\<rparr>,
         c_name = Some ''Min_Protein_requirement''\<rparr>"
  using nutrient_floor_constraints [of Protein ex_data ex_required]
  by (simp add: ex_data_def ex_required_def ex_assignment_def)

subsection \<open>The diversity constraints\<close>

lemma nutrient_constraints_no_indicator:
  "filter (mentions (Has c)) (nutrient_constraints data req) = []"
  by (auto simp: nutrient_constraints_def nutrient_loop_def mentions_def constraint_vars_def
      nutrient_constraint_def)

lemma category_constraints_indicator:
  "filter (mentions (Has c)) (category_constraints data c') =
     (if c' = c then category_constraints data c else [])"
  by (auto simp: category_constraints_def Let_def mentions_def constraint_vars_def
      presence_constraint_def at_most_one_constraint_def)

lemma concat_category_constraints_indicator:
  "distinct cs \<Longrightarrow>
   filter (mentions (Has c)) (concat (map (category_constraints data) cs)) =
     (if c \<in> set cs then category_constraints data c else [])"
proof (induction cs)
  case Nil
  show ?case by simp
next
  case (Cons c' cs)
  then show ?case
    by (auto simp: category_constraints_indicator)
qed

lemma distinct_basket_categories: "distinct basket_categories"
  by (simp add: basket_categories_def)

lemma constraints_on_indicator:
  "constraints_on (Has c) (model (build_model data req)) =
     (if c \<in> set basket_categories then category_constraints data c else [])"
  by (simp add: constraints_on_def build_model_def nutrient_constraints_no_indicator
      diversity_constraints_def concat_category_constraints_indicator distinct_basket_categories)

lemma map_of_keyed: "map_of (map (\<lambda>c. (c, f c)) cs) c = (if c \<in> set cs then Some (f c) else None)"
  by (induction cs) auto

lemma lookup_indicator:
  "lookup_var (build_model data req) (Has c) =
     (if c \<in> set basket_categories then Some (has_var c) else None)"
  by (simp add: lookup_var_def build_model_def mk_has_cat_def map_of_keyed)

lemma satisfied_presence:
  "satisfied a (presence_constraint c items) =
     (a (Has c) \<le> (\<Sum>row\<leftarrow>items. a (Buy (Package_Description row)))
        + real (length (filter (\<lambda>row. 0 < Quantity_in_Stock_lb row) items)))"
  by (simp add: satisfied_def presence_constraint_def eval_affine_def comp_def)

lemma satisfied_at_most_one: "satisfied a (at_most_one_constraint c) = (a (Has c) \<le> 1)"
  by (simp add: satisfied_def at_most_one_constraint_def eval_affine_def)

text \<open>
  Claim C3, as the code has it. The categories are the five of the list
  \<^verbatim>\<open>basket_categories\<close>, not the labels of the catalog. For each of the five that has
  a row in the merged table, the problem has the binary indicator of the category and
  exactly two constraints on it: the sum of the purchase variables of the rows of the
  category, plus the number of those rows with a stock above 0, is at least the
  indicator; and the indicator is at most 1. One of the five with no row has no
  constraint, and a label outside the five has neither an indicator nor a constraint.
\<close>

theorem diversity_constraints_of_listed_category:
  "(c \<in> set basket_categories \<longrightarrow>
      lookup_var (build_model data req) (Has c) = Some (has_var c) \<and> cat (has_var c) = Binary \<and>
      constraints_on (Has c) (model (build_model data req)) =
        (if category_items data c = [] then []
         else [\<lparr>lhs = \<lparr>terms = map (\<lambda>row. (1, Buy (Package_Description row))) (category_items data c),
                       constant_term =
                         real (length (filter (\<lambda>row. 0 < Quantity_in_Stock_lb row)
                                 (category_items data c)))\<rparr>,
                 sense = GE,
                 rhs = \<lparr>terms = [(1, Has c)], constant_term = 0\<rparr>,
                 c_name = Some (c @ ''_presence'')\<rparr>,
               \<lparr>lhs = \<lparr>terms = [(1, Has c)], constant_term = 0\<rparr>,
                 sense = LE,
                 rhs = \<lparr>terms = [], constant_term = 1\<rparr>,
                 c_name = None\<rparr>]))
   \<and> (c \<notin> set basket_categories \<longrightarrow>
        lookup_var (build_model data req) (Has c) = None \<and>
        constraints_on (Has c) (model (build_model data req)) = [])
   \<and> satisfied a (presence_constraint c (category_items data c)) =
        (a (Has c) \<le> (\<Sum>row\<leftarrow>category_items data c. a (Buy (Package_Description row)))
           + real (length (filter (\<lambda>row. 0 < Quantity_in_Stock_lb row) (category_items data c))))
   \<and> satisfied a (at_most_one_constraint c) = (a (Has c) \<le> 1)"
  by (simp add: constraints_on_indicator lookup_indicator satisfied_presence
      satisfied_at_most_one category_constraints_def Let_def)
    (simp add: has_var_def presence_constraint_def at_most_one_constraint_def)

theorem diversity_constraints_of_listed_category_witness:
  "''Protein'' \<in> set basket_categories
   \<and> lookup_var (build_model ex_data ex_required) (Has ''Protein'') =
       Some \<lparr>v_name = ''Has_Protein'', lowBound = None, upBound = None, cat = Binary\<rparr>
   \<and> constraints_on (Has ''Protein'') (model (build_model ex_data ex_required)) =
       [\<lparr>lhs = \<lparr>terms = [(1, Buy ''Beans, 1 lb (dry)'')], constant_term = 0\<rparr>,
         sense = GE,
         rhs = \<lparr>terms = [(1, Has ''Protein'')], constant_term = 0\<rparr>,
         c_name = Some ''Protein_presence''\<rparr>,
        \<lparr>lhs = \<lparr>terms = [(1, Has ''Protein'')], constant_term = 0\<rparr>,
         sense = LE,
         rhs = \<lparr>terms = [], constant_term = 1\<rparr>,
         c_name = None\<rparr>]
   \<and> ''Vegetables'' \<in> set basket_categories
   \<and> constraints_on (Has ''Vegetables'') (model (build_model ex_data ex_required)) = []"
proof -
  have listed: "''Protein'' \<in> set basket_categories" "''Vegetables'' \<in> set basket_categories"
    by (simp_all add: basket_categories_def)
  have items: "category_items ex_data ''Protein'' = [ex_data ! 1]"
    "category_items ex_data ''Vegetables'' = []"
    by (simp_all add: category_items_def ex_data_def)
  show ?thesis
    using listed
      diversity_constraints_of_listed_category [of "''Protein''" ex_data ex_required ex_assignment]
      diversity_constraints_of_listed_category [of "''Vegetables''" ex_data ex_required ex_assignment]
    by (simp add: items) (simp add: ex_data_def has_var_def replace_def)
qed

text \<open>
  Claim C3 as it is stated, for every category with a package in the merged table, fails:
  the milk of the sample table is in the category Dairy, and the problem has no
  indicator and no constraint for it.
\<close>

theorem unlisted_category_counterexample:
  "category_items ex_data ''Dairy'' \<noteq> []
   \<and> lookup_var (build_model ex_data ex_required) (Has ''Dairy'') = None
   \<and> constraints_on (Has ''Dairy'') (model (build_model ex_data ex_required)) = []
   \<and> constraints_named ''Dairy_presence'' (model (build_model ex_data ex_required)) = []"
proof -
  have "''Dairy'' \<notin> set basket_categories"
    by (simp add: basket_categories_def)
  moreover have "category_items ex_data ''Dairy'' \<noteq> []"
    by (simp add: category_items_def ex_data_def)
  moreover have "constraints_named ''Dairy_presence'' (model (build_model ex_data ex_required)) = []"
    by (simp add: constraints_named_def build_model_def named_def nutrient_constraints_def
        nutrient_loop_def nutrient_constraint_def diversity_constraints_def
        basket_categories_def category_constraints_def Let_def presence_constraint_def
        at_most_one_constraint_def)
  ultimately show ?thesis
    by (simp add: lookup_indicator constraints_on_indicator)
qed

subsection \<open>Package descriptions that come twice\<close>

lemma shared_merge:
  "merge_data (Some shared_cost) (Some shared_nutrition) (Some ex_stock) = Inr shared_data"
  by (simp add: merge_data_def merge_stock_def merge_food_def joined_row_def shared_cost_def
      shared_nutrition_def ex_stock_def shared_data_def)

lemma shared_buy_qty:
  "mk_buy_qty shared_data =
     [(''5 lb bag'', \<lparr>v_name = ''5_lb_bag'', lowBound = Some 0, upBound = Some 5, cat = Integer\<rparr>)]"
  by (simp add: mk_buy_qty_def shared_data_def buy_var_def var_name_def replace_def)

lemma shared_results:
  "collect_results exact_ops shared_data shared_values (map fst (mk_buy_qty shared_data)) =
     Inr [\<lparr>r_Store = ''Kroger'', r_Food = ''Rice'', r_Package_Description = ''5 lb bag'',
           lb_per_package = 5, price_per_package = 5, Qty_to_Buy = 5, Total_Weight_lb = 25,
           Weekly_Cost = 25\<rparr>]"
  by (simp add: shared_buy_qty result_for_def shared_values_def)
    (simp add: shared_data_def result_row_of_def py_round_def exact_ops_def decimal_round2_def Let_def)

lemma shared_run:
  "tab3 exact_ops shared_solver shared_state True =
     (Success \<lparr>results_df =
                 [\<lparr>r_Store = ''Kroger'', r_Food = ''Rice'', r_Package_Description = ''5 lb bag'',
                   lb_per_package = 5, price_per_package = 5, Qty_to_Buy = 5,
                   Total_Weight_lb = 25, Weekly_Cost = 25\<rparr>],
               total_cost = 25, total_items = 5, total_weight = 25\<rparr>,
      [ModelBuilt (build_model shared_data ex_required),
       SolveCalled (build_model shared_data ex_required)])"
  by (simp add: tab3_def generate_def shared_state_def ex_requirements shared_merge
      shared_solver_def buy_qty_build_model shared_results summarize_def Let_def)
    (simp add: ex_members_def)

lemma merge_food_member:
  "c \<in> set cost \<Longrightarrow> n \<in> set nutrition \<Longrightarrow> n_Food n = c_Food c \<Longrightarrow>
   (c, n) \<in> set (merge_food cost nutrition)"
  by (auto simp: merge_food_def)

lemma merge_stock_member:
  "(c, n) \<in> set rows \<Longrightarrow> \<exists>q. joined_row c n q \<in> set (merge_stock rows stock)"
proof -
  assume cn: "(c, n) \<in> set rows"
  show ?thesis
  proof (cases "filter (\<lambda>s. s_Package_Description s = c_Package_Description c) stock")
    case Nil
    with cn have "joined_row c n 0 \<in> set (merge_stock rows stock)"
      by (force simp: merge_stock_def)
    then show ?thesis ..
  next
    case (Cons s ss)
    with cn have "joined_row c n (s_Quantity_in_Stock_lb s) \<in> set (merge_stock rows stock)"
      by (force simp: merge_stock_def)
    then show ?thesis ..
  qed
qed

lemma generate_events:
  "required_nutrients (check_df st) (household_members st) = Inr req \<Longrightarrow>
   merge_data (cost_df st) (nutrition_df st) (stock_df st) = Inr data \<Longrightarrow>
   snd (generate ops solve st) =
     [ModelBuilt (build_model data req), SolveCalled (build_model data req)]"
  by (simp add: generate_def Let_def split: sum.splits prod.splits)

text \<open>
  Claim C2, as the code has it. Nothing looks for a package description that comes twice
  in the cost table. With the tables loaded the two merges return the merged table and
  raise no error, whatever the descriptions; every cost row that has a nutrition row is
  in the merged table, rows of a repeated description too; and the request builds the
  problem, with one purchase variable for each distinct description, and calls the
  solver on it.
\<close>

theorem repeated_descriptions_accepted:
  assumes "household_members st \<noteq> []" and "cost_df st = Some cost"
    and "nutrition_df st = Some nutrition" and "check_df st = Some check"
    and "stock_df st = Some stock"
  shows "merge_data (cost_df st) (nutrition_df st) (stock_df st) =
           Inr (merge_stock (merge_food cost nutrition) stock)
    \<and> (\<forall>c\<in>set cost. \<forall>n\<in>set nutrition. n_Food n = c_Food c \<longrightarrow>
          (\<exists>q. joined_row c n q \<in> set (merge_stock (merge_food cost nutrition) stock)))
    \<and> snd (tab3 ops solve st True) =
          [ModelBuilt (build_model (merge_stock (merge_food cost nutrition) stock)
             (foldl (add_member check) required_init (household_members st))),
           SolveCalled (build_model (merge_stock (merge_food cost nutrition) stock)
             (foldl (add_member check) required_init (household_members st)))]
    \<and> distinct (map fst (mk_buy_qty (merge_stock (merge_food cost nutrition) stock)))
    \<and> set (map fst (mk_buy_qty (merge_stock (merge_food cost nutrition) stock))) =
          Package_Description ` set (merge_stock (merge_food cost nutrition) stock)"
proof -
  have m: "merge_data (cost_df st) (nutrition_df st) (stock_df st) =
      Inr (merge_stock (merge_food cost nutrition) stock)"
    using assms by (simp add: merge_data_def)
  have r: "required_nutrients (check_df st) (household_members st) =
      Inr (foldl (add_member check) required_init (household_members st))"
    using assms by (simp add: required_nutrients_def)
  have "tab3 ops solve st True = generate ops solve st"
    using assms by (simp add: tab3_def)
  with generate_events [OF r m, of ops solve] m show ?thesis
    by (simp add: mk_buy_qty_keys [simplified] mk_buy_qty_distinct)
      (blast dest: merge_food_member merge_stock_member)
qed

theorem repeated_descriptions_accepted_witness:
  "merge_data (Some shared_cost) (Some shared_nutrition) (Some ex_stock) = Inr shared_data
   \<and> joined_row (shared_cost ! 0) (shared_nutrition ! 0) 0 \<in> set shared_data
   \<and> joined_row (shared_cost ! 1) (shared_nutrition ! 1) 0 \<in> set shared_data
   \<and> snd (tab3 exact_ops shared_solver shared_state True) =
       [ModelBuilt (build_model shared_data ex_required),
        SolveCalled (build_model shared_data ex_required)]
   \<and> map fst (mk_buy_qty shared_data) = [''5 lb bag'']"
proof -
  have st: "household_members shared_state \<noteq> []" "cost_df shared_state = Some shared_cost"
    "nutrition_df shared_state = Some shared_nutrition" "check_df shared_state = Some ex_check"
    "stock_df shared_state = Some ex_stock"
    by (simp_all add: shared_state_def ex_members_def)
  have data: "merge_stock (merge_food shared_cost shared_nutrition) ex_stock = shared_data"
    using shared_merge by (simp add: merge_data_def)
  have req: "foldl (add_member ex_check) required_init (household_members shared_state) = ex_required"
    using ex_requirements by (simp add: required_nutrients_def shared_state_def)
  have rows: "joined_row (shared_cost ! 0) (shared_nutrition ! 0) 0 \<in> set shared_data"
    "joined_row (shared_cost ! 1) (shared_nutrition ! 1) 0 \<in> set shared_data"
    by (simp_all add: joined_row_def shared_cost_def shared_nutrition_def shared_data_def)
  from repeated_descriptions_accepted [OF st, of exact_ops shared_solver] rows show ?thesis
    by (simp add: data req shared_buy_qty st)
qed

text \<open>
  Claim C2 as it is stated fails: in this session the description \<^verbatim>\<open>5 lb bag\<close> comes
  twice in the cost table, and the request raises nothing: the problem is built, the
  solver is called and a plan is shown.
\<close>

theorem repeated_description_counterexample:
  "\<not> distinct (map c_Package_Description shared_cost)
   \<and> tab3 exact_ops shared_solver shared_state True =
     (Success \<lparr>results_df =
                 [\<lparr>r_Store = ''Kroger'', r_Food = ''Rice'', r_Package_Description = ''5 lb bag'',
                   lb_per_package = 5, price_per_package = 5, Qty_to_Buy = 5,
                   Total_Weight_lb = 25, Weekly_Cost = 25\<rparr>],
               total_cost = 25, total_items = 5, total_weight = 25\<rparr>,
      [ModelBuilt (build_model shared_data ex_required),
       SolveCalled (build_model shared_data ex_required)])"
  using shared_run by (simp add: shared_cost_def)

subsection \<open>Rounding\<close>

lemma py_round_near: "\<bar>x - of_int (py_round x)\<bar> \<le> 1 / 2"
proof -
  have "of_int \<lfloor>x\<rfloor> \<le> x" and "x < of_int \<lfloor>x\<rfloor> + 1"
    by linarith+
  then show ?thesis
    by (auto simp: py_round_def Let_def)
qed

lemma py_round_of_near_int:
  assumes "\<bar>v - of_int k\<bar> < 1 / 2"
  shows "py_round v = k"
proof -
  have fl: "of_int \<lfloor>v\<rfloor> \<le> v" "v < of_int \<lfloor>v\<rfloor> + 1"
    by linarith+
  from assms have lo: "of_int k - 1 / 2 < v" and hi: "v < of_int k + 1 / 2"
    by linarith+
  with fl have "real_of_int \<lfloor>v\<rfloor> < of_int k + 1 / 2" and "real_of_int k - 3 / 2 < of_int \<lfloor>v\<rfloor>"
    by linarith+
  then have "\<lfloor>v\<rfloor> < k + 1" and "k - 2 < \<lfloor>v\<rfloor>"
    by linarith+
  then consider "\<lfloor>v\<rfloor> = k" | "\<lfloor>v\<rfloor> = k - 1"
    by linarith
  then show ?thesis
  proof cases
    case 1
    with lo hi show ?thesis
      by (simp add: py_round_def Let_def)
  next
    case 2
    then have "v - of_int \<lfloor>v\<rfloor> = v - of_int k + 1"
      by simp
    with lo hi have "1 / 2 < v - of_int \<lfloor>v\<rfloor>"
      by linarith
    with 2 show ?thesis
      by (simp add: py_round_def Let_def)
  qed
qed

lemma py_round_nonneg: "0 \<le> v \<Longrightarrow> 0 \<le> py_round v"
  by (auto simp: py_round_def Let_def)

subsection \<open>The rows the loop collects\<close>

lemma result_for_find:
  "result_for ops data vals d =
     (case vals (Buy d) of
        None \<Rightarrow> Inr []
      | Some v \<Rightarrow>
          if 0 < v then
            (case find (\<lambda>row. Package_Description row = d) data of
               None \<Rightarrow> Inl IndexError
             | Some r \<Rightarrow> Inr [result_row_of ops r d (py_round v)])
          else Inr [])"
  by (cases "filter (\<lambda>row. Package_Description row = d) data")
    (auto simp: result_for_def find_first_of_filter Let_def split: option.splits)

lemma find_description:
  "d \<in> Package_Description ` set data \<Longrightarrow>
   \<exists>r. find (\<lambda>row. Package_Description row = d) data = Some r"
  by (cases "find (\<lambda>row. Package_Description row = d) data") (auto simp: find_None_iff)

lemma find_SomeD: "find P xs = Some x \<Longrightarrow> x \<in> set xs \<and> P x"
  by (induction xs) (auto split: if_splits)

lemma collect_results_total:
  "set foods \<subseteq> Package_Description ` set data \<Longrightarrow>
   \<exists>rows. collect_results ops data vals foods = Inr rows"
proof (induction foods)
  case Nil
  show ?case by simp
next
  case (Cons d foods)
  then obtain rest where rest: "collect_results ops data vals foods = Inr rest"
    by auto
  from Cons.prems obtain r where "find (\<lambda>row. Package_Description row = d) data = Some r"
    using find_description [of d data] by auto
  then have "\<exists>here. result_for ops data vals d = Inr here"
    by (simp add: result_for_find split: option.splits)
  with rest show ?case by auto
qed

lemma collect_results_member:
  "collect_results ops data vals foods = Inr rows \<Longrightarrow>
   row \<in> set rows \<longleftrightarrow>
     (\<exists>d\<in>set foods. \<exists>v r. vals (Buy d) = Some v \<and> 0 < v
        \<and> find (\<lambda>x. Package_Description x = d) data = Some r
        \<and> row = result_row_of ops r d (py_round v))"
proof (induction foods arbitrary: rows)
  case Nil
  then show ?case by simp
next
  case (Cons d foods)
  from Cons.prems obtain here rest where
    here: "result_for ops data vals d = Inr here" and
    rest: "collect_results ops data vals foods = Inr rest" and
    rows: "rows = here @ rest"
    by (auto split: sum.splits)
  have "row \<in> set here \<longleftrightarrow>
      (\<exists>v r. vals (Buy d) = Some v \<and> 0 < v
        \<and> find (\<lambda>x. Package_Description x = d) data = Some r
        \<and> row = result_row_of ops r d (py_round v))"
    using here by (auto simp: result_for_find split: option.splits if_splits)
  with Cons.IH [OF rest] rows show ?case
    by auto
qed

lemma collect_results_descriptions:
  "collect_results ops data vals foods = Inr rows \<Longrightarrow>
   map r_Package_Description rows =
     filter (\<lambda>d. case vals (Buy d) of None \<Rightarrow> False | Some v \<Rightarrow> 0 < v) foods"
proof (induction foods arbitrary: rows)
  case Nil
  then show ?case by auto
next
  case (Cons d foods)
  from Cons.prems obtain here rest where
    here: "result_for ops data vals d = Inr here" and
    rest: "collect_results ops data vals foods = Inr rest" and
    rows: "rows = here @ rest"
    by (auto split: sum.splits)
  have "map r_Package_Description here =
      (if (case vals (Buy d) of None \<Rightarrow> False | Some v \<Rightarrow> 0 < v) then [d] else [])"
    using here
    by (auto simp: result_for_find result_row_of_def split: option.splits if_splits)
  with Cons.IH [OF rest] rows show ?case
    by simp
qed

lemma result_row_of_fields:
  "r_Package_Description (result_row_of ops r d q) = d"
  "Qty_to_Buy (result_row_of ops r d q) = q"
  "price_per_package (result_row_of ops r d q) = price r"
  "lb_per_package (result_row_of ops r d q) = lb r"
  "r_Store (result_row_of ops r d q) = Store r"
  "r_Food (result_row_of ops r d q) = Food r"
  "Weekly_Cost (result_row_of ops r d q) = f_round2 ops (f_mul ops (price r) (of_int q))"
  "Total_Weight_lb (result_row_of ops r d q) = f_round2 ops (f_mul ops (lb r) (of_int q))"
  by (simp_all add: result_row_of_def)

text \<open>
  Claim C5, as the code has it. The loop of the results always returns its rows. It has
  one row for a package description exactly when the value of the purchase variable of
  the description is present and above 0: the test is \<^verbatim>\<open>qty > 0\<close>, with no tolerance.
  The quantity of the row is the value rounded to the nearest integer (a tie to the even
  one), so it is 0 for a value of at most one half. The cost stored in the row is the
  float product of the price of the first row of the description and that quantity,
  rounded by \<^verbatim>\<open>round(cost, 2)\<close>, and the weight stored is the float product of the
  weight of a package and that quantity, rounded by \<^verbatim>\<open>round(total_weight, 2)\<close>.
\<close>

theorem results_include_positive_values:
  "\<exists>rows. collect_results ops data vals (map fst (mk_buy_qty data)) = Inr rows
     \<and> distinct (map r_Package_Description rows)
     \<and> (\<forall>d. d \<in> r_Package_Description ` set rows \<longleftrightarrow>
              d \<in> Package_Description ` set data \<and> (\<exists>v. vals (Buy d) = Some v \<and> 0 < v))
     \<and> (\<forall>row\<in>set rows. \<exists>v r.
            vals (Buy (r_Package_Description row)) = Some v
          \<and> find (\<lambda>x. Package_Description x = r_Package_Description row) data = Some r
          \<and> Qty_to_Buy row = py_round v
          \<and> \<bar>v - of_int (Qty_to_Buy row)\<bar> \<le> 1 / 2
          \<and> price_per_package row = price r \<and> lb_per_package row = lb r
          \<and> Weekly_Cost row = f_round2 ops (f_mul ops (price r) (of_int (Qty_to_Buy row)))
          \<and> Total_Weight_lb row =
              f_round2 ops (f_mul ops (lb r) (of_int (Qty_to_Buy row))))"
proof -
  let ?foods = "map fst (mk_buy_qty data)"
  have keys: "set ?foods = Package_Description ` set data"
    by (rule mk_buy_qty_keys)
  then obtain rows where rows: "collect_results ops data vals ?foods = Inr rows"
    using collect_results_total [of ?foods data ops vals] by auto
  have descs: "map r_Package_Description rows =
      filter (\<lambda>d. case vals (Buy d) of None \<Rightarrow> False | Some v \<Rightarrow> 0 < v) ?foods"
    by (rule collect_results_descriptions [OF rows])
  have "distinct (map r_Package_Description rows)"
    unfolding descs using mk_buy_qty_distinct [of data] by (rule distinct_filter)
  moreover have "d \<in> r_Package_Description ` set rows \<longleftrightarrow>
      d \<in> Package_Description ` set data \<and> (\<exists>v. vals (Buy d) = Some v \<and> 0 < v)" for d
  proof -
    have "d \<in> r_Package_Description ` set rows \<longleftrightarrow> d \<in> set (map r_Package_Description rows)"
      by simp
    also have "\<dots> \<longleftrightarrow> d \<in> set ?foods \<and> (\<exists>v. vals (Buy d) = Some v \<and> 0 < v)"
      unfolding descs by (auto split: option.splits)
    finally show ?thesis
      unfolding keys .
  qed
  moreover have "\<exists>v r.
            vals (Buy (r_Package_Description row)) = Some v
          \<and> find (\<lambda>x. Package_Description x = r_Package_Description row) data = Some r
          \<and> Qty_to_Buy row = py_round v
          \<and> \<bar>v - of_int (Qty_to_Buy row)\<bar> \<le> 1 / 2
          \<and> price_per_package row = price r \<and> lb_per_package row = lb r
          \<and> Weekly_Cost row = f_round2 ops (f_mul ops (price r) (of_int (Qty_to_Buy row)))
          \<and> Total_Weight_lb row =
              f_round2 ops (f_mul ops (lb r) (of_int (Qty_to_Buy row)))"
    if "row \<in> set rows" for row
  proof -
    from that collect_results_member [OF rows, of row] obtain d v r where
      "vals (Buy d) = Some v" "find (\<lambda>x. Package_Description x = d) data = Some r"
      "row = result_row_of ops r d (py_round v)"
      by auto
    then show ?thesis
      by (simp add: result_row_of_fields py_round_near [simplified])
  qed
  ultimately show ?thesis
    using rows by blast
qed

theorem results_include_positive_values_witness:
  "collect_results exact_ops ex_data ex_values (map fst (mk_buy_qty ex_data)) =
     Inr [\<lparr>r_Store = ''Kroger'', r_Food = ''Rice'', r_Package_Description = ''Rice 5 lb'',
           lb_per_package = 5, price_per_package = 5, Qty_to_Buy = 2, Total_Weight_lb = 10,
           Weekly_Cost = 10\<rparr>,
          \<lparr>r_Store = ''Meijer'', r_Food = ''Beans'', r_Package_Description = ''Beans, 1 lb (dry)'',
           lb_per_package = 1, price_per_package = 2, Qty_to_Buy = 2, Total_Weight_lb = 2,
           Weekly_Cost = 4\<rparr>,
          \<lparr>r_Store = ''Costco'', r_Food = ''Milk'', r_Package_Description = ''Milk 1 gal'',
           lb_per_package = 8, price_per_package = 1 / 8, Qty_to_Buy = 2, Total_Weight_lb = 16,
           Weekly_Cost = 1 / 4\<rparr>]"
proof -
  have keys: "map fst (mk_buy_qty ex_data) = [''Rice 5 lb'', ''Beans, 1 lb (dry)'', ''Milk 1 gal'']"
    by (simp add: mk_buy_qty_def ex_data_def)
  have two: "py_round 2 = 2"
    by (simp add: py_round_def)
  show ?thesis
    using results_include_positive_values [of exact_ops ex_data ex_values]
    by (simp add: mk_buy_qty_def result_for_def ex_values_def ex_data_def result_row_of_def
        exact_ops_def decimal_round2_def py_round_def Let_def)
qed

text \<open>
  Claim C5 as it is stated fails. A value of one billionth is above 0, so every package of
  the sample table is in the plan, with the quantity 0. A gallon of milk at 0.125 bought
  once has the cost 0.12 in its row, not 0.125 (the double 0.125 times 100 is 12.5, whose
  nearest even integer is 12). And no positive tolerance is the threshold: half of it is
  a value that is still included.
\<close>

theorem near_zero_value_counterexample:
  "collect_results exact_ops ex_data tiny_values (map fst (mk_buy_qty ex_data)) =
     Inr [\<lparr>r_Store = ''Kroger'', r_Food = ''Rice'', r_Package_Description = ''Rice 5 lb'',
           lb_per_package = 5, price_per_package = 5, Qty_to_Buy = 0, Total_Weight_lb = 0,
           Weekly_Cost = 0\<rparr>,
          \<lparr>r_Store = ''Meijer'', r_Food = ''Beans'', r_Package_Description = ''Beans, 1 lb (dry)'',
           lb_per_package = 1, price_per_package = 2, Qty_to_Buy = 0, Total_Weight_lb = 0,
           Weekly_Cost = 0\<rparr>,
          \<lparr>r_Store = ''Costco'', r_Food = ''Milk'', r_Package_Description = ''Milk 1 gal'',
           lb_per_package = 8, price_per_package = 1 / 8, Qty_to_Buy = 0, Total_Weight_lb = 0,
           Weekly_Cost = 0\<rparr>]
   \<and> result_for exact_ops ex_data one_values ''Milk 1 gal'' =
       Inr [\<lparr>r_Store = ''Costco'', r_Food = ''Milk'', r_Package_Description = ''Milk 1 gal'',
             lb_per_package = 8, price_per_package = 1 / 8, Qty_to_Buy = 1, Total_Weight_lb = 8,
             Weekly_Cost = 3 / 25\<rparr>]
   \<and> \<not> (\<exists>tol>0. \<forall>v. (result_for exact_ops ex_data (\<lambda>r. Some v) ''Milk 1 gal'' \<noteq> Inr []) = (tol < v))"
proof -
  have keys: "map fst (mk_buy_qty ex_data) = [''Rice 5 lb'', ''Beans, 1 lb (dry)'', ''Milk 1 gal'']"
    by (simp add: mk_buy_qty_def ex_data_def)
  have tiny: "py_round (1 / 1000000000) = 0"
    by (simp add: py_round_def)
  have one: "py_round 1 = 1"
    by (simp add: py_round_def)
  have a: "collect_results exact_ops ex_data tiny_values (map fst (mk_buy_qty ex_data)) =
     Inr [\<lparr>r_Store = ''Kroger'', r_Food = ''Rice'', r_Package_Description = ''Rice 5 lb'',
           lb_per_package = 5, price_per_package = 5, Qty_to_Buy = 0, Total_Weight_lb = 0,
           Weekly_Cost = 0\<rparr>,
          \<lparr>r_Store = ''Meijer'', r_Food = ''Beans'', r_Package_Description = ''Beans, 1 lb (dry)'',
           lb_per_package = 1, price_per_package = 2, Qty_to_Buy = 0, Total_Weight_lb = 0,
           Weekly_Cost = 0\<rparr>,
          \<lparr>r_Store = ''Costco'', r_Food = ''Milk'', r_Package_Description = ''Milk 1 gal'',
           lb_per_package = 8, price_per_package = 1 / 8, Qty_to_Buy = 0, Total_Weight_lb = 0,
           Weekly_Cost = 0\<rparr>]"
    by (simp add: mk_buy_qty_def result_for_def tiny_values_def ex_data_def result_row_of_def
        exact_ops_def decimal_round2_def py_round_def Let_def)
  have b: "result_for exact_ops ex_data one_values ''Milk 1 gal'' =
       Inr [\<lparr>r_Store = ''Costco'', r_Food = ''Milk'', r_Package_Description = ''Milk 1 gal'',
             lb_per_package = 8, price_per_package = 1 / 8, Qty_to_Buy = 1, Total_Weight_lb = 8,
             Weekly_Cost = 3 / 25\<rparr>]"
    by (simp add: result_for_def one_values_def ex_data_def result_row_of_def
        exact_ops_def decimal_round2_def py_round_def Let_def)
  have c: "\<not> (\<exists>tol>0. \<forall>v. (result_for exact_ops ex_data (\<lambda>r. Some v) ''Milk 1 gal'' \<noteq> Inr []) = (tol < v))"
  proof
    assume "\<exists>tol>0. \<forall>v. (result_for exact_ops ex_data (\<lambda>r. Some v) ''Milk 1 gal'' \<noteq> Inr []) = (tol < v)"
    then obtain tol :: real where tol: "0 < tol"
      and all: "\<And>v. (result_for exact_ops ex_data (\<lambda>r. Some v) ''Milk 1 gal'' \<noteq> Inr []) = (tol < v)"
      by blast
    have "result_for exact_ops ex_data (\<lambda>r. Some (tol / 2)) ''Milk 1 gal'' \<noteq> Inr []"
      using tol by (simp add: result_for_def Let_def ex_data_def)
    with all [of "tol / 2"] tol show False
      by simp
  qed
  from a b c show ?thesis by simp
qed

subsection \<open>The quantities of a plan\<close>

lemma tab3_Success:
  assumes "tab3 ops solve st pressed = (Success p, events)"
  shows "\<exists>req data vals.
           required_nutrients (check_df st) (household_members st) = Inr req
         \<and> merge_data (cost_df st) (nutrition_df st) (stock_df st) = Inr data
         \<and> solve (build_model data req) = Inr (Optimal, vals)
         \<and> collect_results ops data vals (map fst (mk_buy_qty data)) = Inr (results_df p)"
proof -
  from assms have g: "generate ops solve st = (Success p, events)"
    by (simp add: tab3_def split: if_splits)
  then obtain req where req: "required_nutrients (check_df st) (household_members st) = Inr req"
    by (cases "required_nutrients (check_df st) (household_members st)")
      (simp_all add: generate_def)
  from g req obtain data where
    data: "merge_data (cost_df st) (nutrition_df st) (stock_df st) = Inr data"
    by (cases "merge_data (cost_df st) (nutrition_df st) (stock_df st)")
      (simp_all add: generate_def)
  from g req data obtain s vals where sv: "solve (build_model data req) = Inr (s, vals)"
    by (cases "solve (build_model data req)") (auto simp: generate_def Let_def)
  from g req data sv have opt: "s = Optimal"
    by (cases "s = Optimal") (simp_all add: generate_def Let_def LpStatus_Optimal)
  from g req data sv opt obtain rows where
    rows: "collect_results ops data vals (map fst (mk_buy_qty data)) = Inr rows"
    by (cases "collect_results ops data vals (map fst (mk_buy_qty data))")
      (simp_all add: generate_def Let_def buy_qty_build_model)
  from g req data sv opt rows have "results_df p = rows"
    by (auto simp: generate_def Let_def buy_qty_build_model summarize_def split: if_splits)
  with req data sv opt rows show ?thesis
    by auto
qed

lemma distinct_map_same:
  "distinct (map f xs) \<Longrightarrow> x \<in> set xs \<Longrightarrow> y \<in> set xs \<Longrightarrow> f x = f y \<Longrightarrow> x = y"
  by (auto simp: distinct_map dest: inj_onD)

text \<open>
  What the bounds of the variables give. The solver is taken to leave, in each purchase
  variable that has a value, a number within one half of a whole number inside the bounds
  of the variable. Then the quantity of each row of a plan is a whole number that is not
  negative and not above the upper bound of the purchase variable of the description of
  the row, which is the \<^verbatim>\<open>Max_quantity\<close> of the last row of the merged table with
  that description. The row itself shows the first row with the description: the two
  are the same row when the descriptions of the merged table are distinct.
\<close>

lemma quantities_within_bound_of_description:
  assumes run: "tab3 ops solve st pressed = (Success p, events)"
    and solved: "\<And>req data s vals d lv v.
        required_nutrients (check_df st) (household_members st) = Inr req \<Longrightarrow>
        merge_data (cost_df st) (nutrition_df st) (stock_df st) = Inr data \<Longrightarrow>
        solve (build_model data req) = Inr (s, vals) \<Longrightarrow>
        map_of (buy_qty (build_model data req)) d = Some lv \<Longrightarrow>
        vals (Buy d) = Some v \<Longrightarrow>
        \<exists>k::int. \<bar>v - of_int k\<bar> < 1 / 2 \<and> within_bounds lv (of_int k)"
    and row: "row \<in> set (results_df p)"
  shows "0 \<le> Qty_to_Buy row
    \<and> (\<exists>data r.
          merge_data (cost_df st) (nutrition_df st) (stock_df st) = Inr data
        \<and> find (\<lambda>x. Package_Description x = r_Package_Description row) (rev data) = Some r
        \<and> map_of (mk_buy_qty data) (r_Package_Description row) = Some (buy_var r)
        \<and> real_of_int (Qty_to_Buy row) \<le> Max_quantity r
        \<and> (distinct (map Package_Description data) \<longrightarrow>
              r_Store row = Store r \<and> r_Food row = Food r
            \<and> price_per_package row = price r \<and> lb_per_package row = lb r))"
proof -
  from tab3_Success [OF run] obtain req data vals where
    req: "required_nutrients (check_df st) (household_members st) = Inr req" and
    data: "merge_data (cost_df st) (nutrition_df st) (stock_df st) = Inr data" and
    sv: "solve (build_model data req) = Inr (Optimal, vals)" and
    rows: "collect_results ops data vals (map fst (mk_buy_qty data)) = Inr (results_df p)"
    by blast
  from row collect_results_member [OF rows, of row] obtain d v r0 where
    v: "vals (Buy d) = Some v" "0 < v" and
    r0: "find (\<lambda>x. Package_Description x = d) data = Some r0" and
    row_eq: "row = result_row_of ops r0 d (py_round v)"
    by auto
  from r0 have r0_in: "r0 \<in> set data" "Package_Description r0 = d"
    using find_SomeD [of "\<lambda>x. Package_Description x = d" data r0] by auto
  then have "d \<in> Package_Description ` set (rev data)"
    by auto
  then obtain r where r: "find (\<lambda>x. Package_Description x = d) (rev data) = Some r"
    using find_description [of d "rev data"] by auto
  then have r_in: "r \<in> set data" "Package_Description r = d"
    using find_SomeD [of "\<lambda>x. Package_Description x = d" "rev data" r] by auto
  have var: "map_of (mk_buy_qty data) d = Some (buy_var r)"
    by (simp add: map_of_mk_buy_qty r)
  then have "map_of (buy_qty (build_model data req)) d = Some (buy_var r)"
    by (simp add: buy_qty_build_model)
  from solved [OF req data sv this v(1)] obtain k :: int where
    k: "\<bar>v - of_int k\<bar> < 1 / 2" "within_bounds (buy_var r) (of_int k)"
    by blast
  from k(1) have q: "py_round v = k"
    by (rule py_round_of_near_int)
  from k(2) have "0 \<le> k" and "real_of_int k \<le> Max_quantity r"
    by (simp_all add: within_bounds_def buy_var_def)
  moreover have "r0 = r" if "distinct (map Package_Description data)"
    using that r0_in r_in by (auto intro: distinct_map_same [of Package_Description data])
  ultimately show ?thesis
    using data r var q row_eq by (auto simp: result_row_of_fields)
qed

subsection \<open>The session with a shared description\<close>

lemma shared_feasible: "feasible (build_model shared_data ex_required) shared_assignment"
  by (simp add: feasible_def build_model_def problem_vars_def cost_objective_def
      nutrient_constraints_def nutrient_loop_def nutrient_constraint_def diversity_constraints_def
      basket_categories_def category_constraints_def category_items_def presence_constraint_def
      at_most_one_constraint_def constraint_vars_def var_ok_def lookup_var_def mk_buy_qty_def
      mk_has_cat_def has_var_def buy_var_def in_domain_def within_bounds_def satisfied_def
      eval_affine_def shared_data_def ex_required_def shared_assignment_def Let_def)

lemma shared_optimal: "is_optimal_value (build_model shared_data ex_required) 45"
proof -
  have "objective_value (build_model shared_data ex_required) shared_assignment = 45"
    by (simp add: objective_value_def build_model_def cost_objective_def eval_affine_def
        shared_data_def shared_assignment_def)
  moreover have "45 \<le> objective_value (build_model shared_data ex_required) a"
    if f: "feasible (build_model shared_data ex_required) a" for a
  proof -
    from f have int: "of_int \<lfloor>a (Buy ''5 lb bag'')\<rfloor> = a (Buy ''5 lb bag'')"
      by (simp add: feasible_def build_model_def problem_vars_def cost_objective_def
          var_ok_def lookup_var_def mk_buy_qty_def buy_var_def in_domain_def shared_data_def)
    from f have "satisfied a (nutrient_constraint shared_data ex_required Calorie)"
      by (simp add: feasible_def build_model_def nutrient_constraints_def nutrient_loop_def)
    then have "26600 \<le> 5400 * a (Buy ''5 lb bag'')"
      by (simp add: satisfied_def nutrient_constraint_def eval_affine_def shared_data_def
          ex_required_def)
    moreover from int obtain n :: int where n: "a (Buy ''5 lb bag'') = of_int n"
      by metis
    ultimately have "(26600::real) \<le> 5400 * of_int n"
      by simp
    then have "(26600::int) \<le> 5400 * n"
      by linarith
    then have "5 \<le> n"
      by linarith
    with n have "5 \<le> a (Buy ''5 lb bag'')"
      by simp
    then show ?thesis
      by (simp add: objective_value_def build_model_def cost_objective_def eval_affine_def
          shared_data_def)
  qed
  ultimately show ?thesis
    unfolding is_optimal_value_def using shared_feasible by blast
qed

text \<open>
  Claim C8. The claim holds of what the code sets out to do (each variable is created
  with \<^verbatim>\<open>upBound=row["Max_quantity"]\<close>) and the code breaks it when two packages
  share a description. In this session the rice and the flour are both \<^verbatim>\<open>5 lb bag\<close>.
  The dictionary keeps one purchase variable for the description, with the bound 5 of
  the flour, the last row. Five of it is feasible at the cost 45 and nothing feasible
  costs less, so it is what the solver returns. The loop of the results reads the first
  row of the description, so the plan shows the rice with the quantity 5, while the
  nutrition table declares a maximum of 1 for rice.
\<close>

theorem shared_description_exceeds_maximum:
  "fst (tab3 exact_ops shared_solver shared_state True) =
     Success \<lparr>results_df =
                 [\<lparr>r_Store = ''Kroger'', r_Food = ''Rice'', r_Package_Description = ''5 lb bag'',
                   lb_per_package = 5, price_per_package = 5, Qty_to_Buy = 5,
                   Total_Weight_lb = 25, Weekly_Cost = 25\<rparr>],
               total_cost = 25, total_items = 5, total_weight = 25\<rparr>
   \<and> n_Food (shared_nutrition ! 0) = ''Rice'' \<and> n_Max_quantity (shared_nutrition ! 0) = 1
   \<and> lookup_var (build_model shared_data ex_required) (Buy ''5 lb bag'') =
       Some \<lparr>v_name = ''5_lb_bag'', lowBound = Some 0, upBound = Some 5, cat = Integer\<rparr>
   \<and> shared_values (Buy ''5 lb bag'') = Some 5
   \<and> feasible (build_model shared_data ex_required) shared_assignment
   \<and> objective_value (build_model shared_data ex_required) shared_assignment = 45
   \<and> \<not> (\<exists>a. feasible (build_model shared_data ex_required) a
            \<and> objective_value (build_model shared_data ex_required) a < 45)"
proof -
  have cost: "objective_value (build_model shared_data ex_required) shared_assignment = 45"
    by (simp add: objective_value_def build_model_def cost_objective_def eval_affine_def
        shared_data_def shared_assignment_def)
  have least: "\<not> (\<exists>a. feasible (build_model shared_data ex_required) a
            \<and> objective_value (build_model shared_data ex_required) a < 45)"
    using shared_optimal unfolding is_optimal_value_def by (auto simp: not_less)
  from shared_run shared_feasible cost least show ?thesis
    by (simp add: shared_nutrition_def lookup_var_def buy_qty_build_model shared_buy_qty
        shared_values_def)
qed

subsection \<open>The diversity constraints bind nothing\<close>

lemma indicators_zero_simps:
  "indicators_zero a (Buy d) = a (Buy d)" "indicators_zero a (Has c) = 0"
  by (simp_all add: indicators_zero_def)

lemma mk_buy_qty_entry:
  "(d, lv) \<in> set (mk_buy_qty data) \<longleftrightarrow>
     (\<exists>r. find (\<lambda>row. Package_Description row = d) (rev data) = Some r \<and> lv = buy_var r)"
  using map_of_eq_Some_iff [OF mk_buy_qty_distinct, of data d lv]
  by (auto simp: map_of_mk_buy_qty)

lemma purchase_nonneg:
  assumes "purchases_within_bounds data a" and "row \<in> set data"
  shows "0 \<le> a (Buy (Package_Description row))"
proof -
  from assms(2) have "Package_Description row \<in> Package_Description ` set (rev data)"
    by simp
  then obtain r where "find (\<lambda>x. Package_Description x = Package_Description row) (rev data) = Some r"
    using find_description [of "Package_Description row" "rev data"] by auto
  then have "(Package_Description row, buy_var r) \<in> set (mk_buy_qty data)"
    by (simp add: mk_buy_qty_entry)
  with assms(1) have "within_bounds (buy_var r) (a (Buy (Package_Description row)))"
    by (auto simp: purchases_within_bounds_def list_all_iff)
  then show ?thesis
    by (simp add: within_bounds_def buy_var_def)
qed

lemma sum_list_nonneg_rows:
  "(\<And>row. row \<in> set rows \<Longrightarrow> 0 \<le> f row) \<Longrightarrow> (0::real) \<le> (\<Sum>row\<leftarrow>rows. f row)"
  by (induction rows) auto

lemma category_constraints_zero:
  assumes "purchases_within_bounds data a"
  shows "list_all (satisfied (indicators_zero a)) (category_constraints data c)"
proof -
  have "0 \<le> (\<Sum>row\<leftarrow>category_items data c. a (Buy (Package_Description row)))"
    by (rule sum_list_nonneg_rows) (simp add: category_items_def purchase_nonneg [OF assms])
  then show ?thesis
    by (simp add: category_constraints_def Let_def satisfied_presence satisfied_at_most_one
        indicators_zero_simps)
qed

lemma diversity_constraints_zero:
  "purchases_within_bounds data a \<Longrightarrow>
   list_all (satisfied (indicators_zero a)) (diversity_constraints data)"
  by (simp add: diversity_constraints_def list_all_iff)
    (use category_constraints_zero in \<open>auto simp: list_all_iff\<close>)

lemma indicator_zero_ok:
  "c \<in> set basket_categories \<Longrightarrow> var_ok (build_model data req) (indicators_zero a) (Has c)"
  by (simp add: var_ok_def lookup_indicator in_domain_def has_var_def indicators_zero_simps)

lemma lookup_var_without_diversity:
  "lookup_var (without_diversity data req) = lookup_var (build_model data req)"
  by (rule ext) (simp add: lookup_var_def without_diversity_def Let_def build_model_def
      split: var_ref.splits)

lemma var_ok_without_diversity:
  "var_ok (without_diversity data req) = var_ok (build_model data req)"
  by (intro ext) (simp add: var_ok_def lookup_var_without_diversity)

lemma model_without_diversity:
  "objective (model (without_diversity data req)) = cost_objective data"
  "constraints (model (without_diversity data req)) = nutrient_constraints data req"
  "objective (model (build_model data req)) = cost_objective data"
  "constraints (model (build_model data req)) =
     nutrient_constraints data req @ diversity_constraints data"
  by (simp_all add: without_diversity_def Let_def build_model_def)

lemma feasible_drop_diversity:
  "feasible (build_model data req) a \<Longrightarrow> feasible (without_diversity data req) a"
  by (simp add: feasible_def problem_vars_def model_without_diversity var_ok_without_diversity)

lemma eval_affine_purchases:
  "set (map snd (terms e)) \<subseteq> range Buy \<Longrightarrow> eval_affine (indicators_zero a) e = eval_affine a e"
proof -
  assume "set (map snd (terms e)) \<subseteq> range Buy"
  then have "map (\<lambda>(k, v). k * indicators_zero a v) (terms e) = map (\<lambda>(k, v). k * a v) (terms e)"
    by (intro map_cong) (auto simp: indicators_zero_simps)
  then show ?thesis
    by (simp only: eval_affine_def)
qed

lemma var_ok_purchase:
  "var_ok b (indicators_zero a) (Buy d) = var_ok b a (Buy d)"
  by (simp add: var_ok_def indicators_zero_simps split: option.splits)

lemma nutrient_constraint_purchases:
  "satisfied (indicators_zero a) (nutrient_constraint data req n) =
     satisfied a (nutrient_constraint data req n)"
proof -
  have "eval_affine (indicators_zero a) (lhs (nutrient_constraint data req n)) =
      eval_affine a (lhs (nutrient_constraint data req n))"
    by (rule eval_affine_purchases) (auto simp: nutrient_constraint_def)
  moreover have "eval_affine (indicators_zero a) (rhs (nutrient_constraint data req n)) =
      eval_affine a (rhs (nutrient_constraint data req n))"
    by (rule eval_affine_purchases) (auto simp: nutrient_constraint_def)
  ultimately show ?thesis
    by (simp add: satisfied_def split: sense.splits)
qed

lemma objective_purchases:
  "objective_value (build_model data req) (indicators_zero a) =
     objective_value (build_model data req) a"
  unfolding objective_value_def model_without_diversity
  by (rule eval_affine_purchases) (auto simp: cost_objective_def)

lemma objective_without_diversity:
  "objective_value (without_diversity data req) a = objective_value (build_model data req) a"
  by (simp add: objective_value_def model_without_diversity)

lemma feasible_purchases_within_bounds:
  assumes "feasible (without_diversity data req) a"
  shows "purchases_within_bounds data a"
proof -
  have "within_bounds lv (a (Buy d))" if "(d, lv) \<in> set (mk_buy_qty data)" for d lv
  proof -
    from that have m: "map_of (mk_buy_qty data) d = Some lv"
      using map_of_eq_Some_iff [OF mk_buy_qty_distinct, of data d lv] by simp
    from that have "d \<in> fst ` set (mk_buy_qty data)"
      by force
    then have "d \<in> Package_Description ` set data"
      using mk_buy_qty_keys [of data] by simp
    then have "Buy d \<in> set (problem_vars (model (without_diversity data req)))"
      by (auto simp: problem_vars_def model_without_diversity cost_objective_def)
    with assms have "var_ok (without_diversity data req) a (Buy d)"
      by (simp add: feasible_def list_all_iff)
    with m have "in_domain lv (a (Buy d))"
      by (simp add: var_ok_def lookup_var_def without_diversity_def Let_def build_model_def)
    moreover from that have "cat lv = Integer"
      by (auto simp: mk_buy_qty_entry buy_var_def)
    ultimately show ?thesis
      by (simp add: in_domain_def)
  qed
  then show ?thesis
    by (auto simp: purchases_within_bounds_def list_all_iff)
qed

lemma diversity_vars:
  "r \<in> set (concat (map constraint_vars (diversity_constraints data))) \<Longrightarrow>
   (\<exists>row\<in>set data. r = Buy (Package_Description row)) \<or> (\<exists>c\<in>set basket_categories. r = Has c)"
  by (auto simp: diversity_constraints_def category_constraints_def Let_def constraint_vars_def
      presence_constraint_def at_most_one_constraint_def category_items_def split: if_splits)

lemma feasible_add_diversity:
  assumes f: "feasible (without_diversity data req) a"
  shows "feasible (build_model data req) (indicators_zero a)"
proof -
  have bounds: "purchases_within_bounds data a"
    by (rule feasible_purchases_within_bounds [OF f])
  have old: "var_ok (build_model data req) a r"
    if "r \<in> set (map snd (terms (cost_objective data)))
        \<or> r \<in> set (concat (map constraint_vars (nutrient_constraints data req)))" for r
    using f that
    by (auto simp: feasible_def problem_vars_def model_without_diversity
        var_ok_without_diversity list_all_iff)
  have buy: "var_ok (build_model data req) (indicators_zero a) (Buy (Package_Description row))"
    if "row \<in> set data" for row
    using old [of "Buy (Package_Description row)"] that
    by (auto simp: var_ok_purchase cost_objective_def)
  have nutr_vars: "r \<in> set (concat (map constraint_vars (nutrient_constraints data req))) \<Longrightarrow>
      \<exists>row\<in>set data. r = Buy (Package_Description row)" for r
    by (auto simp: nutrient_constraints_def nutrient_loop_def constraint_vars_def
        nutrient_constraint_def)
  have vars: "var_ok (build_model data req) (indicators_zero a) r"
    if "r \<in> set (problem_vars (model (build_model data req)))" for r
  proof -
    from that consider
      "r \<in> set (map snd (terms (cost_objective data)))"
      | "r \<in> set (concat (map constraint_vars (nutrient_constraints data req)))"
      | "r \<in> set (concat (map constraint_vars (diversity_constraints data)))"
      by (auto simp: problem_vars_def model_without_diversity)
    then show ?thesis
    proof cases
      case 1
      then show ?thesis
        using buy by (auto simp: cost_objective_def)
    next
      case 2
      then show ?thesis
        using buy nutr_vars by blast
    next
      case 3
      then show ?thesis
        using buy indicator_zero_ok diversity_vars [OF 3] by blast
    qed
  qed
  have nutr: "list_all (satisfied (indicators_zero a)) (nutrient_constraints data req)"
    using f
    by (simp add: feasible_def model_without_diversity nutrient_constraints_def list_all_iff
        nutrient_constraint_purchases)
  show ?thesis
    using vars nutr diversity_constraints_zero [OF bounds]
    by (auto simp: feasible_def model_without_diversity list_all_iff)
qed

text \<open>
  Claim C4. For every merged table, requirement and assignment that keeps the purchase
  variables within their bounds, giving 0 to every indicator of a category satisfies
  every diversity constraint, and 0 is a value of a binary variable. So the problem that
  is built and the same problem without the diversity constraints have the same feasible
  purchases (the values \<open>q\<close> of the purchase variables of a feasible assignment) and
  the same optimal value of the objective.
\<close>

theorem diversity_constraints_redundant:
  "(purchases_within_bounds data a \<longrightarrow>
      list_all (satisfied (indicators_zero a)) (diversity_constraints data)
      \<and> list_all (var_ok (build_model data req) (indicators_zero a)) (map Has basket_categories))
   \<and> ((\<exists>a. feasible (build_model data req) a \<and> (\<forall>d. a (Buy d) = q d)) \<longleftrightarrow>
        (\<exists>a. feasible (without_diversity data req) a \<and> (\<forall>d. a (Buy d) = q d)))
   \<and> (is_optimal_value (build_model data req) v \<longleftrightarrow>
        is_optimal_value (without_diversity data req) v)"
proof (intro conjI impI)
  assume "purchases_within_bounds data a"
  then show "list_all (satisfied (indicators_zero a)) (diversity_constraints data)"
    by (rule diversity_constraints_zero)
next
  show "list_all (var_ok (build_model data req) (indicators_zero a)) (map Has basket_categories)"
    by (simp add: list_all_iff indicator_zero_ok)
next
  show "(\<exists>a. feasible (build_model data req) a \<and> (\<forall>d. a (Buy d) = q d)) \<longleftrightarrow>
        (\<exists>a. feasible (without_diversity data req) a \<and> (\<forall>d. a (Buy d) = q d))"
  proof
    assume "\<exists>a. feasible (build_model data req) a \<and> (\<forall>d. a (Buy d) = q d)"
    then show "\<exists>a. feasible (without_diversity data req) a \<and> (\<forall>d. a (Buy d) = q d)"
      using feasible_drop_diversity by blast
  next
    assume "\<exists>a. feasible (without_diversity data req) a \<and> (\<forall>d. a (Buy d) = q d)"
    then obtain a where "feasible (without_diversity data req) a" and "\<forall>d. a (Buy d) = q d"
      by blast
    then have "feasible (build_model data req) (indicators_zero a)
        \<and> (\<forall>d. indicators_zero a (Buy d) = q d)"
      by (simp add: feasible_add_diversity indicators_zero_simps)
    then show "\<exists>a. feasible (build_model data req) a \<and> (\<forall>d. a (Buy d) = q d)"
      by blast
  qed
next
  show "is_optimal_value (build_model data req) v \<longleftrightarrow>
        is_optimal_value (without_diversity data req) v"
  proof
    assume opt: "is_optimal_value (build_model data req) v"
    then obtain a where a: "feasible (build_model data req) a"
      "objective_value (build_model data req) a = v"
      and least: "\<And>a'. feasible (build_model data req) a' \<Longrightarrow>
        v \<le> objective_value (build_model data req) a'"
      unfolding is_optimal_value_def by blast
    have "feasible (without_diversity data req) a \<and> objective_value (without_diversity data req) a = v"
      using a by (simp add: feasible_drop_diversity objective_without_diversity)
    moreover have "v \<le> objective_value (without_diversity data req) a'"
      if "feasible (without_diversity data req) a'" for a'
      using least [OF feasible_add_diversity [OF that]]
      by (simp add: objective_purchases objective_without_diversity)
    ultimately show "is_optimal_value (without_diversity data req) v"
      unfolding is_optimal_value_def by blast
  next
    assume opt: "is_optimal_value (without_diversity data req) v"
    then obtain a where a: "feasible (without_diversity data req) a"
      "objective_value (without_diversity data req) a = v"
      and least: "\<And>a'. feasible (without_diversity data req) a' \<Longrightarrow>
        v \<le> objective_value (without_diversity data req) a'"
      unfolding is_optimal_value_def by blast
    have "feasible (build_model data req) (indicators_zero a)
        \<and> objective_value (build_model data req) (indicators_zero a) = v"
      using a by (simp add: feasible_add_diversity objective_purchases objective_without_diversity)
    moreover have "v \<le> objective_value (build_model data req) a'"
      if "feasible (build_model data req) a'" for a'
      using least [OF feasible_drop_diversity [OF that]]
      by (simp add: objective_without_diversity)
    ultimately show "is_optimal_value (build_model data req) v"
      unfolding is_optimal_value_def by blast
  qed
qed

theorem diversity_constraints_redundant_witness:
  "purchases_within_bounds ex_data ex_assignment
   \<and> list_all (satisfied (indicators_zero ex_assignment)) (diversity_constraints ex_data)
   \<and> list_all (var_ok (build_model ex_data ex_required) (indicators_zero ex_assignment))
        (map Has basket_categories)
   \<and> is_optimal_value (build_model shared_data ex_required) 45
   \<and> is_optimal_value (without_diversity shared_data ex_required) 45"
proof -
  have "purchases_within_bounds ex_data ex_assignment"
    by (simp add: purchases_within_bounds_def mk_buy_qty_def ex_data_def buy_var_def
        within_bounds_def ex_assignment_def)
  with diversity_constraints_redundant [of ex_data ex_assignment ex_required]
    diversity_constraints_redundant [of shared_data _ ex_required _ 45] shared_optimal
  show ?thesis
    by simp
qed

end
